theory Spec2Isabelle
  imports Main "HOL-Library.Sublist"
begin

section \<open>The voice-conversion pipeline of \<^verbatim>\<open>vc.py\<close>\<close>

text \<open>
  The module \<^verbatim>\<open>vc.py\<close> has four functions: \<^verbatim>\<open>validate_audio_files\<close>,
  \<^verbatim>\<open>generate_random_tag\<close>, \<^verbatim>\<open>configure_converter\<close> and \<^verbatim>\<open>mainpipe\<close>.
  Each is embedded below as a HOL function of the same name. Exceptions are values of a
  sum type, the calls to the outside world (the filesystem, the duration probe, the
  converter object, \<^verbatim>\<open>time.sleep\<close>) are recorded in a trace, and the converter
  object's hidden state is threaded through the run.

  The names \<^verbatim>\<open>random\<close>, \<^verbatim>\<open>librosa\<close> and \<^verbatim>\<open>MODELS\<close> are free in the
  module (it neither imports nor defines them); they are taken as parameters: the
  fields \<open>randint\<close>, \<open>get_duration\<close> and \<open>MODELS\<close> of the environment. The two
  \<^verbatim>\<open>print\<close> calls of \<^verbatim>\<open>mainpipe\<close> write to standard output only and are
  left out of the trace.
\<close>

subsection \<open>Exceptions\<close>

text \<open>
  \<open>AudioConverterError\<close> is the module's own exception class, carrying its message.
  \<open>IndexError\<close> is what Python raises for \<^verbatim>\<open>xs[0]\<close> on an empty list.
  \<open>OSError\<close> is what the filesystem calls of \<^verbatim>\<open>pathlib\<close> raise.
  \<open>OtherException\<close> stands for any other instance of \<^verbatim>\<open>Exception\<close> raised by a
  collaborator, carrying the text \<^verbatim>\<open>str(e)\<close> yields for it.
\<close>

datatype exn =
    AudioConverterError string
  | IndexError string
  | OSError string
  | OtherException string

text \<open>\<^verbatim>\<open>str(e)\<close>: the message of the exception.\<close>

fun str_exn :: "exn \<Rightarrow> string" where
  "str_exn (AudioConverterError msg) = msg"
| "str_exn (IndexError msg) = msg"
| "str_exn (OSError msg) = msg"
| "str_exn (OtherException msg) = msg"

subsection \<open>Strings\<close>

text \<open>\<^verbatim>\<open>s.endswith(suf)\<close>: the last \<open>length suf\<close> characters of \<open>s\<close> are \<open>suf\<close>.\<close>

definition endswith :: "string \<Rightarrow> string \<Rightarrow> bool" where
  "endswith s suf = (length suf \<le> length s \<and> drop (length s - length suf) s = suf)"

text \<open>
  The decimal text of an integer, as \<^verbatim>\<open>str\<close> and an f-string produce it: no
  leading zero, a minus sign for a negative number.
\<close>

definition digit_char :: "nat \<Rightarrow> char" where
  "digit_char d = ''0123456789'' ! d"

fun str_nat :: "nat \<Rightarrow> string" where
  "str_nat n = (if n < 10 then [digit_char n] else str_nat (n div 10) @ [digit_char (n mod 10)])"

declare str_nat.simps [simp del]

definition str_int :: "int \<Rightarrow> string" where
  "str_int i = (if i < 0 then CHR ''-'' # str_nat (nat (- i)) else str_nat (nat i))"

text \<open>
  Reading a decimal text back: what a character is worth as a digit, whether it is one
  of the ten decimal digits, and the number a string of digits denotes.
\<close>

definition digit_val :: "char \<Rightarrow> nat" where
  "digit_val c = of_char c - 48"

definition is_digit :: "char \<Rightarrow> bool" where
  "is_digit c = (48 \<le> (of_char c :: nat) \<and> (of_char c :: nat) \<le> 57)"

definition digits_value :: "string \<Rightarrow> nat" where
  "digits_value ds = foldl (\<lambda>acc c. 10 * acc + digit_val c) 0 ds"

subsection \<open>Data\<close>

text \<open>
  The \<^verbatim>\<open>files\<close> argument of \<^verbatim>\<open>validate_audio_files\<close> is declared
  \<^verbatim>\<open>Union[str, List[str]]\<close>; \<open>NoFiles\<close> is the value \<^verbatim>\<open>None\<close> of a caller that
  passes nothing.
\<close>

datatype files_arg =
    NoFiles
  | OneFile string
  | FileList "string list"

text \<open>
  An entry of the registry \<^verbatim>\<open>MODELS\<close>: a dictionary with the keys
  \<^verbatim>\<open>"model_name"\<close>, \<^verbatim>\<open>"model"\<close> (field \<open>model_file\<close>) and \<^verbatim>\<open>"index"\<close>
  (field \<open>index_file\<close>).
\<close>

record model_entry =
  model_name :: string
  model_file :: string
  index_file :: string

text \<open>
  The dictionary \<^verbatim>\<open>config_params\<close> that \<^verbatim>\<open>mainpipe\<close> builds, with its ten keys.
  The three floating-point parameters are passed on unchanged and never computed with;
  their type is the parameter \<open>'f\<close>.
\<close>

record 'f config_params =
  tag :: string
  file_model :: string
  pitch_algo :: string
  pitch_lvl :: 'f
  file_index :: string
  index_influence :: 'f
  respiration_median_filtering :: bool
  envelope_ratio :: 'f
  consonant_breath_protection :: bool
  audio_files :: "string list"

subsection \<open>The outside world\<close>

text \<open>One event for each call that leaves the module, with the arguments of the call.\<close>

datatype 'f event =
    is_PathExists: PathExists string
  | is_GetDuration: GetDuration string
  | is_ApplyConf: ApplyConf "'f config_params" int
  | is_Sleep: Sleep nat
  | is_Convert: Convert "string list" string bool int

text \<open>
  The state of a run: the calls made so far, and the hidden state of the converter
  object (of type \<open>'c\<close>).
\<close>

record ('c, 'f) world =
  trace :: "'f event list"
  conv :: 'c

text \<open>
  What the module reads from its surroundings: \<^verbatim>\<open>Path(p).exists()\<close>,
  \<^verbatim>\<open>str(Path(p).absolute())\<close>, \<^verbatim>\<open>librosa.get_duration(filename=p)\<close> (which
  returns a duration or raises), \<^verbatim>\<open>random.randint(a, b)\<close> and the registry
  \<^verbatim>\<open>MODELS\<close>.

  \<^verbatim>\<open>Path(p).exists()\<close> answers \<^verbatim>\<open>True\<close> or \<^verbatim>\<open>False\<close>, or raises: it
  turns the errors \<^verbatim>\<open>ENOENT\<close>, \<^verbatim>\<open>ENOTDIR\<close>, \<^verbatim>\<open>EBADF\<close> and \<^verbatim>\<open>ELOOP\<close> of
  \<^verbatim>\<open>stat\<close> into \<^verbatim>\<open>False\<close> and lets every other \<^verbatim>\<open>OSError\<close> through, for
  instance \<^verbatim>\<open>ENAMETOOLONG\<close> for a name longer than the filesystem accepts.
  \<^verbatim>\<open>Path(p).absolute()\<close> prefixes the working directory without touching the
  file; it is read as a total function.
\<close>

record 'f env =
  path_exists :: "string \<Rightarrow> exn + bool"
  path_absolute :: "string \<Rightarrow> string"
  get_duration :: "string \<Rightarrow> exn + 'f"
  randint :: "int \<Rightarrow> int \<Rightarrow> int"
  MODELS :: "model_entry list"

text \<open>
  The converter object (a \<^verbatim>\<open>BaseLoader\<close>), used through two operations:
  \<^verbatim>\<open>converter.apply_conf(**config_params, resample_sr=sr)\<close> and the call
  \<^verbatim>\<open>converter(audio_files, tag, overwrite=o, parallel_workers=w)\<close>. Each may raise
  and each may change the object's state; the call returns a sequence of results of
  type \<open>'r\<close>.
\<close>

record ('c, 'f, 'r) BaseLoader =
  apply_conf :: "'f config_params \<Rightarrow> int \<Rightarrow> 'c \<Rightarrow> (exn + unit) \<times> 'c"
  call :: "string list \<Rightarrow> string \<Rightarrow> bool \<Rightarrow> int \<Rightarrow> 'c \<Rightarrow> (exn + 'r list) \<times> 'c"

subsection \<open>Statements that may raise\<close>

text \<open>
  A statement is a function from the state of the run to an outcome (\<open>Inl\<close> an
  exception, \<open>Inr\<close> a value) and the state it leaves. \<open>seq\<close> runs two statements one
  after the other, the second skipped when the first raises; \<open>try_except\<close> hands an
  exception of its body to the handler.
\<close>

type_synonym ('a, 's) stmt = "'s \<Rightarrow> (exn + 'a) \<times> 's"

definition ret :: "'a \<Rightarrow> ('a, 's) stmt" where
  "ret a = (\<lambda>s. (Inr a, s))"

definition raise :: "exn \<Rightarrow> ('a, 's) stmt" where
  "raise e = (\<lambda>s. (Inl e, s))"

definition seq :: "('a, 's) stmt \<Rightarrow> ('a \<Rightarrow> ('b, 's) stmt) \<Rightarrow> ('b, 's) stmt" where
  "seq m f = (\<lambda>s. case m s of (Inl e, s') \<Rightarrow> (Inl e, s') | (Inr a, s') \<Rightarrow> f a s')"

definition try_except :: "('a, 's) stmt \<Rightarrow> (exn \<Rightarrow> ('a, 's) stmt) \<Rightarrow> ('a, 's) stmt" where
  "try_except m h = (\<lambda>s. case m s of (Inl e, s') \<Rightarrow> h e s' | (Inr a, s') \<Rightarrow> (Inr a, s'))"

definition emit :: "'f event \<Rightarrow> (unit, ('c, 'f) world) stmt" where
  "emit ev = (\<lambda>s. (Inr (), s\<lparr>trace := trace s @ [ev]\<rparr>))"

text \<open>\<^verbatim>\<open>xs[0]\<close>: the first element, or \<^verbatim>\<open>IndexError\<close> on an empty list.\<close>

definition subscript0 :: "'a list \<Rightarrow> ('a, 's) stmt" where
  "subscript0 xs = (case xs of [] \<Rightarrow> raise (IndexError ''list index out of range'') | x # _ \<Rightarrow> ret x)"

text \<open>An operation of the converter object: it runs on the object's state.\<close>

definition on_conv :: "('c \<Rightarrow> (exn + 'a) \<times> 'c) \<Rightarrow> ('a, ('c, 'f) world) stmt" where
  "on_conv f = (\<lambda>s. case f (conv s) of (r, c') \<Rightarrow> (r, s\<lparr>conv := c'\<rparr>))"

text \<open>A value or an exception obtained without touching the state.\<close>

definition lift :: "exn + 'a \<Rightarrow> ('a, 's) stmt" where
  "lift r = (\<lambda>s. (r, s))"

subsection \<open>\<^verbatim>\<open>validate_audio_files\<close>\<close>

text \<open>
  \<^verbatim>\<open>not files\<close>: true of \<^verbatim>\<open>None\<close>, of the empty string and of the empty list.
\<close>

fun is_falsy :: "files_arg \<Rightarrow> bool" where
  "is_falsy NoFiles = True"
| "is_falsy (OneFile p) = (p = [])"
| "is_falsy (FileList ps) = (ps = [])"

text \<open>
  \<^verbatim>\<open>if isinstance(files, str): files = [files]\<close>. The case \<open>NoFiles\<close> never
  reaches this line (it is falsy); the loop over \<^verbatim>\<open>None\<close> is not modelled.
\<close>

fun normalize_files :: "files_arg \<Rightarrow> string list" where
  "normalize_files (OneFile p) = [p]"
| "normalize_files (FileList ps) = ps"
| "normalize_files NoFiles = []"

text \<open>
  The \<^verbatim>\<open>for\<close> loop: the paths still to visit, and \<^verbatim>\<open>valid_files\<close> as
  accumulated so far. Each iteration asks the filesystem whether the path exists; an
  exception of that call leaves the loop as it is.
\<close>

fun validate_loop :: "'f env \<Rightarrow> string list \<Rightarrow> string list \<Rightarrow> (string list, ('c, 'f) world) stmt" where
  "validate_loop env [] valid_files = ret valid_files"
| "validate_loop env (file_path # rest) valid_files =
     seq (emit (PathExists file_path)) (\<lambda>_.
     seq (lift (path_exists env file_path)) (\<lambda>found.
       if \<not> found
       then raise (AudioConverterError (''Audio file not found: '' @ file_path))
       else validate_loop env rest (valid_files @ [path_absolute env file_path])))"

definition validate_audio_files :: "'f env \<Rightarrow> files_arg \<Rightarrow> (string list, ('c, 'f) world) stmt" where
  "validate_audio_files env files =
     (if is_falsy files
      then raise (AudioConverterError ''No audio files provided'')
      else validate_loop env (normalize_files files) [])"

subsection \<open>\<^verbatim>\<open>generate_random_tag\<close>\<close>

definition generate_random_tag :: "'f env \<Rightarrow> string" where
  "generate_random_tag env = ''USER_'' @ str_int (randint env 10000000 99999999)"

subsection \<open>\<^verbatim>\<open>configure_converter\<close>\<close>

text \<open>\<^verbatim>\<open>time.sleep(0.1)\<close> is the event \<open>Sleep 100\<close>, in milliseconds.\<close>

definition configure_converter ::
  "('c, 'f, 'r) BaseLoader \<Rightarrow> 'f config_params \<Rightarrow> (unit, ('c, 'f) world) stmt" where
  "configure_converter converter config_params =
     seq (subscript0 (audio_files config_params)) (\<lambda>first.
     let sample_rate = (if endswith first ''.mp3'' then 44100 else 0) in
     seq (emit (ApplyConf config_params sample_rate)) (\<lambda>_.
     seq (on_conv (apply_conf converter config_params sample_rate)) (\<lambda>_.
     emit (Sleep 100))))"

subsection \<open>\<^verbatim>\<open>mainpipe\<close>\<close>

text \<open>
  Lines 98 to 107 of \<^verbatim>\<open>mainpipe\<close>, the model lookup: \<^verbatim>\<open>next\<close> over the
  generator yields the first entry of the registry whose \<^verbatim>\<open>"model_name"\<close> equals
  the requested name, or \<^verbatim>\<open>None\<close>; then the two checks.
\<close>

definition resolve_model :: "model_entry list \<Rightarrow> string \<Rightarrow> exn + model_entry" where
  "resolve_model registry model =
     (case find (\<lambda>m. model_name m = model) registry of
        None \<Rightarrow> Inl (AudioConverterError (''Model not found: '' @ model))
      | Some model_config \<Rightarrow>
          if \<not> endswith (model_file model_config) ''.pth''
          then Inl (AudioConverterError ''Invalid model file (must be .pth)'')
          else Inr model_config)"

text \<open>
  Lines 110 to 121 of \<^verbatim>\<open>mainpipe\<close>: the dictionary \<^verbatim>\<open>config_params\<close>, built
  from the tag, the resolved model entry, the caller's parameters and the validated
  files. The parameter \<^verbatim>\<open>pitch_lvl\<close> carries a prime here and below, its name
  being a field of the record.
\<close>

definition build_config_params ::
  "string \<Rightarrow> model_entry \<Rightarrow> string \<Rightarrow> 'f \<Rightarrow> 'f \<Rightarrow> bool \<Rightarrow> 'f \<Rightarrow> bool \<Rightarrow> string list \<Rightarrow>
   'f config_params" where
  "build_config_params random_tag model_config pitch_alg pitch_lvl' index_inf r_m_f e_r c_b_p
     valid_files = \<lparr>
       tag = random_tag,
       file_model = model_file model_config,
       pitch_algo = pitch_alg,
       pitch_lvl = pitch_lvl',
       file_index = index_file model_config,
       index_influence = index_inf,
       respiration_median_filtering = r_m_f,
       envelope_ratio = e_r,
       consonant_breath_protection = c_b_p,
       audio_files = valid_files\<rparr>"

text \<open>
  The body of the \<^verbatim>\<open>try\<close> block. The parameter \<^verbatim>\<open>audio_files\<close> carries a
  prime, its name being a field of \<open>config_params\<close>; \<open>valid_files\<close> is
  \<^verbatim>\<open>audio_files\<close> after its reassignment on line 88.
\<close>

definition mainpipe_body ::
  "'f env \<Rightarrow> string \<Rightarrow> files_arg \<Rightarrow> string \<Rightarrow> 'f \<Rightarrow> 'f \<Rightarrow> bool \<Rightarrow> 'f \<Rightarrow> bool \<Rightarrow>
   ('c, 'f, 'r) BaseLoader \<Rightarrow> ('r, ('c, 'f) world) stmt" where
  "mainpipe_body env model audio_files' pitch_alg pitch_lvl' index_inf r_m_f e_r c_b_p converter =
     seq (validate_audio_files env audio_files') (\<lambda>valid_files.
     seq (subscript0 valid_files) (\<lambda>first.
     seq (emit (GetDuration first)) (\<lambda>_.
     seq (lift (get_duration env first)) (\<lambda>duration_base.
     let random_tag = generate_random_tag env in
     seq (lift (resolve_model (MODELS env) model)) (\<lambda>model_config.
     let config = build_config_params random_tag model_config pitch_alg pitch_lvl' index_inf
                    r_m_f e_r c_b_p valid_files in
     seq (configure_converter converter config) (\<lambda>_.
     seq (emit (Convert valid_files random_tag False 8)) (\<lambda>_.
     seq (on_conv (call converter valid_files random_tag False 8)) (\<lambda>result.
     subscript0 result))))))))"

text \<open>
  \<^verbatim>\<open>mainpipe\<close>: the body under \<^verbatim>\<open>except Exception as e\<close>, which raises an
  \<^verbatim>\<open>AudioConverterError\<close> built from \<^verbatim>\<open>str(e)\<close>.
\<close>

definition mainpipe ::
  "'f env \<Rightarrow> string \<Rightarrow> files_arg \<Rightarrow> string \<Rightarrow> 'f \<Rightarrow> 'f \<Rightarrow> bool \<Rightarrow> 'f \<Rightarrow> bool \<Rightarrow>
   ('c, 'f, 'r) BaseLoader \<Rightarrow> ('r, ('c, 'f) world) stmt" where
  "mainpipe env model audio_files' pitch_alg pitch_lvl' index_inf r_m_f e_r c_b_p converter =
     try_except
       (mainpipe_body env model audio_files' pitch_alg pitch_lvl' index_inf r_m_f e_r c_b_p converter)
       (\<lambda>e. raise (AudioConverterError (''Conversion failed: '' @ str_exn e)))"

subsection \<open>A concrete setting\<close>

text \<open>
  A small world to run the pipeline in: two files exist, the registry has a model
  \<open>Y\<close> with weights in the wrong format and a model \<open>X\<close> with \<^verbatim>\<open>.pth\<close> weights
  (twice, the second entry never reached), the random source always draws
  \<open>12345678\<close>, and the converter counts the configurations applied to it and returns
  one output name for each input file. \<open>mute_converter\<close> returns no result at all,
  and \<open>broken_probe\<close> is the same world with a duration probe that raises.
  \<open>long_names\<close> is the same world on a filesystem that refuses a name of more than
  255 characters, as \<^verbatim>\<open>stat\<close> does with \<^verbatim>\<open>ENAMETOOLONG\<close> (error 36).
  \<open>recording_converter\<close> keeps a log of the operations applied to it, with their
  arguments, in its state.
\<close>

definition demo_env :: "int env" where
  "demo_env = \<lparr>
     path_exists = (\<lambda>p. Inr (p \<in> set [''a.mp3'', ''b.wav''])),
     path_absolute = (\<lambda>p. ''/srv/'' @ p),
     get_duration = (\<lambda>p. Inr 3),
     randint = (\<lambda>lo hi. lo + 2345678),
     MODELS = [
       \<lparr>model_name = ''Y'', model_file = ''y.onnx'', index_file = ''y.index''\<rparr>,
       \<lparr>model_name = ''X'', model_file = ''x.pth'', index_file = ''x.index''\<rparr>,
       \<lparr>model_name = ''X'', model_file = ''x2.bin'', index_file = ''x2.index''\<rparr>]\<rparr>"

definition broken_probe :: "int env" where
  "broken_probe = demo_env\<lparr>get_duration := (\<lambda>p. Inl (OtherException ''cannot decode''))\<rparr>"

definition long_names :: "int env" where
  "long_names = demo_env\<lparr>path_exists := (\<lambda>p.
     if 255 < length p
     then Inl (OSError (''[Errno 36] File name too long: '' @ CHR 0x27 # p @ [CHR 0x27]))
     else path_exists demo_env p)\<rparr>"

definition demo_converter :: "(nat, int, string) BaseLoader" where
  "demo_converter = \<lparr>
     apply_conf = (\<lambda>params sr c. (Inr (), Suc c)),
     call = (\<lambda>files tg overwrite workers c. (Inr (map (\<lambda>f. f @ ''.out'') files), c))\<rparr>"

definition mute_converter :: "(nat, int, string) BaseLoader" where
  "mute_converter = \<lparr>
     apply_conf = (\<lambda>params sr c. (Inr (), Suc c)),
     call = (\<lambda>files tg overwrite workers c. (Inr [], c))\<rparr>"

definition demo_start :: "(nat, int) world" where
  "demo_start = \<lparr>trace = [], conv = 0\<rparr>"

datatype call_log =
    Configured int
  | Converted "string list" string bool int

definition recording_converter :: "(call_log list, int, string) BaseLoader" where
  "recording_converter = \<lparr>
     apply_conf = (\<lambda>params sr c. (Inr (), c @ [Configured sr])),
     call = (\<lambda>files tg overwrite workers c.
       (Inr (map (\<lambda>f. f @ ''.out'') files), c @ [Converted files tg overwrite workers]))\<rparr>"

definition recording_start :: "(call_log list, int) world" where
  "recording_start = \<lparr>trace = [], conv = []\<rparr>"

definition demo_params :: "int config_params" where
  "demo_params = \<lparr>
     tag = ''USER_12345678'', file_model = ''x.pth'', pitch_algo = ''rmvpe'', pitch_lvl = 0,
     file_index = ''x.index'', index_influence = 1, respiration_median_filtering = True,
     envelope_ratio = 2, consonant_breath_protection = False,
     audio_files = [''/srv/a.mp3'', ''/srv/b.wav'']\<rparr>"

section \<open>Properties\<close>

subsection \<open>Strings and decimal digits\<close>

lemma endswith_iff_suffix: "endswith s suf = suffix suf s"
  unfolding endswith_def suffix_def
  by (metis append_eq_conv_conj append_take_drop_id diff_add_inverse2 le_add2 length_append length_drop diff_diff_cancel)

lemma digit_char_cases: "d < 10 \<Longrightarrow> d = 0 \<or> d = 1 \<or> d = 2 \<or> d = 3 \<or> d = 4 \<or> d = 5 \<or> d = 6 \<or> d = 7 \<or> d = 8 \<or> d = (9::nat)"
  by arith

lemma digit_val_digit_char: "d < 10 \<Longrightarrow> digit_val (digit_char d) = d"
  using digit_char_cases[of d] by (auto simp: digit_val_def digit_char_def)

lemma is_digit_digit_char: "d < 10 \<Longrightarrow> is_digit (digit_char d)"
  using digit_char_cases[of d] by (auto simp: is_digit_def digit_char_def)

lemma str_nat_digits: "\<forall>c\<in>set (str_nat n). is_digit c"
proof (induction n rule: str_nat.induct)
  case (1 n)
  show ?case
  proof (cases "n < 10")
    case True
    then show ?thesis by (subst str_nat.simps) (simp add: is_digit_digit_char)
  next
    case False
    then show ?thesis using 1 by (subst str_nat.simps) (simp add: is_digit_digit_char)
  qed
qed

lemma digits_value_snoc: "digits_value (ds @ [c]) = 10 * digits_value ds + digit_val c"
  by (simp add: digits_value_def)

lemma digits_value_str_nat: "digits_value (str_nat n) = n"
proof (induction n rule: str_nat.induct)
  case (1 n)
  show ?case
  proof (cases "n < 10")
    case True
    then show ?thesis by (subst str_nat.simps) (simp add: digits_value_def digit_val_digit_char)
  next
    case False
    then show ?thesis using 1
      by (subst str_nat.simps) (simp add: digits_value_snoc digit_val_digit_char)
  qed
qed

lemma str_nat_length: "10 ^ k \<le> n \<Longrightarrow> n < 10 ^ Suc k \<Longrightarrow> length (str_nat n) = Suc k"
proof (induction k arbitrary: n)
  case 0
  then show ?case by (subst str_nat.simps) simp
next
  case (Suc k)
  have big: "\<not> n < 10" using Suc.prems(1) 
    by (metis One_nat_def le_trans not_less one_le_numeral one_le_power power_Suc2 mult.commute mult_le_mono2 mult.right_neutral)
  have lo: "10 ^ k \<le> n div 10" using Suc.prems(1) by (simp add: less_eq_div_iff_mult_less_eq)
  have hi: "n div 10 < 10 ^ Suc k" using Suc.prems(2) by (simp add: div_less_iff_less_mult mult.commute)
  show ?case using big Suc.IH[OF lo hi] by (subst str_nat.simps) simp
qed

subsection \<open>The tag generator\<close>

lemma str_int_nonneg: "0 \<le> i \<Longrightarrow> str_int i = str_nat (nat i)"
  by (simp add: str_int_def)

text \<open>
  Claim C7. Whatever number the random source draws within the bounds it was given, the
  tag is \<open>USER_\<close> followed by exactly eight characters, each a decimal digit, and the
  number they denote is the draw, which lies between 10000000 and 99999999.
\<close>

theorem generate_random_tag_pattern:
  assumes lo: "10000000 \<le> randint env 10000000 99999999"
      and hi: "randint env 10000000 99999999 \<le> 99999999"
  shows "\<exists>ds. generate_random_tag env = ''USER_'' @ ds \<and> length ds = 8 \<and>
           (\<forall>c\<in>set ds. is_digit c) \<and>
           int (digits_value ds) = randint env 10000000 99999999 \<and>
           10000000 \<le> digits_value ds \<and> digits_value ds \<le> 99999999"
proof -
  define n where "n = nat (randint env 10000000 99999999)"
  have n_lo: "10 ^ 7 \<le> n" using lo by (simp add: n_def)
  have n_hi: "n < 10 ^ Suc 7" using lo hi by (simp add: n_def)
  have tag: "generate_random_tag env = ''USER_'' @ str_nat n"
    using lo by (simp add: generate_random_tag_def str_int_nonneg n_def)
  have len: "length (str_nat n) = 8" using str_nat_length[OF n_lo n_hi] by simp
  have val: "digits_value (str_nat n) = n" by (rule digits_value_str_nat)
  have same: "int n = randint env 10000000 99999999" using lo by (simp add: n_def)
  show ?thesis
    using tag len val same str_nat_digits[of n] n_lo n_hi
    by (intro exI[of _ "str_nat n"]) simp
qed

theorem generate_random_tag_pattern_witness:
  "10000000 \<le> randint demo_env 10000000 99999999 \<and>
   randint demo_env 10000000 99999999 \<le> 99999999 \<and>
   generate_random_tag demo_env = ''USER_12345678'' \<and>
   (\<exists>ds. generate_random_tag demo_env = ''USER_'' @ ds \<and> length ds = 8 \<and>
           (\<forall>c\<in>set ds. is_digit c) \<and>
           int (digits_value ds) = randint demo_env 10000000 99999999 \<and>
           10000000 \<le> digits_value ds \<and> digits_value ds \<le> 99999999)"
proof -
  have lo: "10000000 \<le> randint demo_env 10000000 99999999" by (simp add: demo_env_def)
  have hi: "randint demo_env 10000000 99999999 \<le> 99999999" by (simp add: demo_env_def)
  have tg: "generate_random_tag demo_env = ''USER_12345678''"
    by (simp add: generate_random_tag_def demo_env_def str_int_def str_nat.simps digit_char_def)
  show ?thesis using lo hi tg generate_random_tag_pattern[OF lo hi] by blast
qed

subsection \<open>Model resolution\<close>

lemma find_none_iff_all: "(find P xs = None) = (\<forall>x\<in>set xs. \<not> P x)"
  by (induction xs) auto

lemma find_first: "\<forall>x\<in>set pre. \<not> P x \<Longrightarrow> P m \<Longrightarrow> find P (pre @ m # post) = Some m"
  by (induction pre) auto

text \<open>
  Claim C3. When no entry of the registry has the requested name, resolution fails
  with the message \<open>Model not found:\<close> and the name. Otherwise the first entry with
  that name decides: it is returned when its weights path ends in \<open>.pth\<close>, and the
  resolution fails with \<open>Invalid model file (must be .pth)\<close> when it does not,
  whatever the entries after it are.
\<close>

theorem resolve_model_first_match:
  "((\<forall>m\<in>set registry. model_name m \<noteq> model) \<longrightarrow>
      resolve_model registry model = Inl (AudioConverterError (''Model not found: '' @ model))) \<and>
   (registry = pre @ m # post \<and> (\<forall>x\<in>set pre. model_name x \<noteq> model) \<and> model_name m = model \<longrightarrow>
      resolve_model registry model =
        (if suffix ''.pth'' (model_file m) then Inr m
         else Inl (AudioConverterError ''Invalid model file (must be .pth)'')))"
proof (intro conjI impI)
  assume "\<forall>m\<in>set registry. model_name m \<noteq> model"
  then have "find (\<lambda>m. model_name m = model) registry = None"
    by (simp add: find_none_iff_all)
  then show "resolve_model registry model = Inl (AudioConverterError (''Model not found: '' @ model))"
    by (simp add: resolve_model_def)
next
  assume h: "registry = pre @ m # post \<and> (\<forall>x\<in>set pre. model_name x \<noteq> model) \<and> model_name m = model"
  then have "find (\<lambda>m. model_name m = model) registry = Some m"
    using find_first[of pre "\<lambda>m. model_name m = model" m post] by simp
  then show "resolve_model registry model =
        (if suffix ''.pth'' (model_file m) then Inr m
         else Inl (AudioConverterError ''Invalid model file (must be .pth)''))"
    by (simp add: resolve_model_def endswith_iff_suffix)
qed


theorem resolve_model_first_match_witness:
  "resolve_model (MODELS demo_env) ''Z'' = Inl (AudioConverterError ''Model not found: Z'') \<and>
   resolve_model (MODELS demo_env) ''Y'' = Inl (AudioConverterError ''Invalid model file (must be .pth)'') \<and>
   resolve_model (MODELS demo_env) ''X'' =
     Inr \<lparr>model_name = ''X'', model_file = ''x.pth'', index_file = ''x.index''\<rparr>"
proof -
  have none: "\<forall>m\<in>set (MODELS demo_env). model_name m \<noteq> ''Z''"
    by (simp add: demo_env_def)
  have y: "MODELS demo_env = [] @ \<lparr>model_name = ''Y'', model_file = ''y.onnx'', index_file = ''y.index''\<rparr> #
      [\<lparr>model_name = ''X'', model_file = ''x.pth'', index_file = ''x.index''\<rparr>,
       \<lparr>model_name = ''X'', model_file = ''x2.bin'', index_file = ''x2.index''\<rparr>]"
    by (simp add: demo_env_def)
  have x: "MODELS demo_env = [\<lparr>model_name = ''Y'', model_file = ''y.onnx'', index_file = ''y.index''\<rparr>] @
      \<lparr>model_name = ''X'', model_file = ''x.pth'', index_file = ''x.index''\<rparr> #
      [\<lparr>model_name = ''X'', model_file = ''x2.bin'', index_file = ''x2.index''\<rparr>]"
    by (simp add: demo_env_def)
  have a: "resolve_model (MODELS demo_env) ''Z'' = Inl (AudioConverterError ''Model not found: Z'')"
    using resolve_model_first_match[of "MODELS demo_env" "''Z''"] none by simp
  have b: "resolve_model (MODELS demo_env) ''Y'' = Inl (AudioConverterError ''Invalid model file (must be .pth)'')"
    using resolve_model_first_match[of "MODELS demo_env" "''Y''" "[]"
        "\<lparr>model_name = ''Y'', model_file = ''y.onnx'', index_file = ''y.index''\<rparr>"] y
    by (simp add: suffix_def)
  have c: "resolve_model (MODELS demo_env) ''X'' =
     Inr \<lparr>model_name = ''X'', model_file = ''x.pth'', index_file = ''x.index''\<rparr>"
    using resolve_model_first_match[of "MODELS demo_env" "''X''"
        "[\<lparr>model_name = ''Y'', model_file = ''y.onnx'', index_file = ''y.index''\<rparr>]"
        "\<lparr>model_name = ''X'', model_file = ''x.pth'', index_file = ''x.index''\<rparr>"] x
    by (simp add: suffix_def)
  show ?thesis using a b c by simp
qed

subsection \<open>Validation of the audio files\<close>

lemma validate_loop_all_exist:
  "\<forall>p\<in>set ps. path_exists env p = Inr True \<Longrightarrow>
   validate_loop env ps acc s =
     (Inr (acc @ map (path_absolute env) ps), s\<lparr>trace := trace s @ map PathExists ps\<rparr>)"
  by (induction ps arbitrary: acc s) (simp_all add: seq_def emit_def ret_def lift_def)

lemma validate_loop_first_missing:
  "\<forall>q\<in>set pre. path_exists env q = Inr True \<Longrightarrow> path_exists env p = Inr False \<Longrightarrow>
   validate_loop env (pre @ p # post) acc s =
     (Inl (AudioConverterError (''Audio file not found: '' @ p)),
      s\<lparr>trace := trace s @ map PathExists (pre @ [p])\<rparr>)"
  by (induction pre arbitrary: acc s) (simp_all add: seq_def emit_def raise_def lift_def)

lemma validate_loop_first_raises:
  "\<forall>q\<in>set pre. path_exists env q = Inr True \<Longrightarrow> path_exists env p = Inl e \<Longrightarrow>
   validate_loop env (pre @ p # post) acc s =
     (Inl e, s\<lparr>trace := trace s @ map PathExists (pre @ [p])\<rparr>)"
  by (induction pre arbitrary: acc s) (simp_all add: seq_def emit_def raise_def lift_def)

lemma first_missing_split:
  "\<exists>p\<in>set ps. path_exists env p \<noteq> Inr True \<Longrightarrow>
   \<exists>pre p post. ps = pre @ p # post \<and> (\<forall>q\<in>set pre. path_exists env q = Inr True) \<and>
     path_exists env p \<noteq> Inr True"
  using split_list_first_prop[of ps "\<lambda>p. path_exists env p \<noteq> Inr True"] by auto

text \<open>
  Claim C5. A non-empty list of paths that all exist is returned as the list of their
  absolute forms, of the same length and in the same order: the element at each
  position is the absolute form of the input path at that position. A single non-empty
  path that exists is returned as the one-element list of its absolute form.
\<close>

theorem validate_audio_files_all_exist:
  "(ps \<noteq> [] \<and> (\<forall>p\<in>set ps. path_exists env p = Inr True) \<longrightarrow>
      (\<exists>out. fst (validate_audio_files env (FileList ps) s) = Inr out \<and>
             out = map (path_absolute env) ps \<and> length out = length ps \<and>
             (\<forall>i<length ps. out ! i = path_absolute env (ps ! i)))) \<and>
   (p \<noteq> [] \<and> path_exists env p = Inr True \<longrightarrow>
      fst (validate_audio_files env (OneFile p) s) = Inr [path_absolute env p])"
  by (simp add: validate_audio_files_def validate_loop_all_exist[of _ env "[]" s]
      seq_def emit_def ret_def lift_def)

theorem validate_audio_files_all_exist_witness:
  "fst (validate_audio_files demo_env (FileList [''b.wav'', ''a.mp3'']) demo_start) =
     Inr [''/srv/b.wav'', ''/srv/a.mp3''] \<and>
   fst (validate_audio_files demo_env (OneFile ''a.mp3'') demo_start) = Inr [''/srv/a.mp3'']"
proof -
  have ex: "\<forall>p\<in>set [''b.wav'', ''a.mp3'']. path_exists demo_env p = Inr True"
    by (simp add: demo_env_def)
  have ex1: "path_exists demo_env ''a.mp3'' = Inr True" by (simp add: demo_env_def)
  have ab: "map (path_absolute demo_env) [''b.wav'', ''a.mp3''] = [''/srv/b.wav'', ''/srv/a.mp3'']"
    by (simp add: demo_env_def)
  have ab1: "path_absolute demo_env ''a.mp3'' = ''/srv/a.mp3''" by (simp add: demo_env_def)
  show ?thesis
    using validate_audio_files_all_exist[of "[''b.wav'', ''a.mp3'']" demo_env demo_start "''a.mp3''"]
      ex ex1 ab ab1
    by simp
qed

text \<open>
  A path that does not exist is not always reported as such. On a filesystem that
  refuses a name of 256 characters, \<^verbatim>\<open>Path(p).exists()\<close> raises \<^verbatim>\<open>OSError\<close> for it;
  the validator has no handler, so this exception is its outcome, and not an
  \<^verbatim>\<open>AudioConverterError\<close> naming the path.
\<close>

theorem validate_audio_files_name_too_long_counterexample:
  "fst (validate_audio_files long_names (OneFile (replicate 256 CHR ''a'')) demo_start) =
     Inl (OSError (''[Errno 36] File name too long: '' @
                   CHR 0x27 # replicate 256 CHR ''a'' @ [CHR 0x27])) \<and>
   fst (validate_audio_files long_names (OneFile (replicate 256 CHR ''a'')) demo_start) \<noteq>
     Inl (AudioConverterError (''Audio file not found: '' @ replicate 256 CHR ''a''))"
proof -
  have long: "path_exists long_names (replicate 256 CHR ''a'') =
      Inl (OSError (''[Errno 36] File name too long: '' @
                    CHR 0x27 # replicate 256 CHR ''a'' @ [CHR 0x27]))"
    by (simp add: long_names_def)
  have none: "\<forall>q\<in>set []. path_exists long_names q = Inr True" by simp
  have ne: "replicate 256 CHR ''a'' \<noteq> []" by simp
  from validate_loop_first_raises[OF none long, of "[]" "[]" demo_start] ne
  have "fst (validate_audio_files long_names (OneFile (replicate 256 CHR ''a'')) demo_start) =
     Inl (OSError (''[Errno 36] File name too long: '' @
                   CHR 0x27 # replicate 256 CHR ''a'' @ [CHR 0x27]))"
    by (simp add: validate_audio_files_def)
  then show ?thesis by simp
qed

text \<open>
  Claim C6, as the code has it. An absent argument, an empty string and an empty list
  are each rejected with the message \<open>No audio files provided\<close>. When the existence
  checks of the paths before \<open>p\<close> all answer \<^verbatim>\<open>True\<close> and the check of \<open>p\<close> answers
  \<^verbatim>\<open>False\<close>, the input is rejected with \<open>Audio file not found:\<close> followed by \<open>p\<close>;
  when the check of \<open>p\<close> raises instead, that exception is the outcome, unchanged. The
  same holds of a single non-empty path. In particular a list on which no check raises
  and some check answers \<^verbatim>\<open>False\<close> is rejected with \<open>Audio file not found:\<close> followed
  by a path of the list that does not exist.
\<close>

theorem validate_audio_files_rejects:
  "fst (validate_audio_files env NoFiles s) = Inl (AudioConverterError ''No audio files provided'') \<and>
   fst (validate_audio_files env (OneFile []) s) = Inl (AudioConverterError ''No audio files provided'') \<and>
   fst (validate_audio_files env (FileList []) s) = Inl (AudioConverterError ''No audio files provided'') \<and>
   ((\<forall>q\<in>set pre. path_exists env q = Inr True) \<and> path_exists env p = Inr False \<longrightarrow>
      fst (validate_audio_files env (FileList (pre @ p # post)) s) =
        Inl (AudioConverterError (''Audio file not found: '' @ p))) \<and>
   ((\<forall>q\<in>set pre. path_exists env q = Inr True) \<and> path_exists env p = Inl e \<longrightarrow>
      fst (validate_audio_files env (FileList (pre @ p # post)) s) = Inl e) \<and>
   (f \<noteq> [] \<and> path_exists env f = Inr False \<longrightarrow>
      fst (validate_audio_files env (OneFile f) s) =
        Inl (AudioConverterError (''Audio file not found: '' @ f))) \<and>
   (f \<noteq> [] \<and> path_exists env f = Inl e \<longrightarrow>
      fst (validate_audio_files env (OneFile f) s) = Inl e) \<and>
   ((\<forall>q\<in>set ps. path_exists env q = Inr True \<or> path_exists env q = Inr False) \<and>
    (\<exists>q\<in>set ps. path_exists env q = Inr False) \<longrightarrow>
      (\<exists>q\<in>set ps. path_exists env q = Inr False \<and>
         fst (validate_audio_files env (FileList ps) s) =
           Inl (AudioConverterError (''Audio file not found: '' @ q))))"
proof -
  have empty: "fst (validate_audio_files env NoFiles s) = Inl (AudioConverterError ''No audio files provided'')"
    "fst (validate_audio_files env (OneFile []) s) = Inl (AudioConverterError ''No audio files provided'')"
    "fst (validate_audio_files env (FileList []) s) = Inl (AudioConverterError ''No audio files provided'')"
    by (simp_all add: validate_audio_files_def raise_def)
  have missing: "fst (validate_audio_files env (FileList (xs @ x # ys)) s) =
        Inl (AudioConverterError (''Audio file not found: '' @ x))"
    if "\<forall>q\<in>set xs. path_exists env q = Inr True" and "path_exists env x = Inr False"
    for xs x ys
    using validate_loop_first_missing[OF that, of ys "[]" s]
    by (simp add: validate_audio_files_def)
  have raising: "fst (validate_audio_files env (FileList (xs @ x # ys)) s) = Inl e"
    if "\<forall>q\<in>set xs. path_exists env q = Inr True" and "path_exists env x = Inl e"
    for xs x ys
    using validate_loop_first_raises[OF that, of ys "[]" s]
    by (simp add: validate_audio_files_def)
  have none: "\<forall>q\<in>set []. path_exists env q = Inr True" by simp
  have one_missing: "fst (validate_audio_files env (OneFile f) s) =
        Inl (AudioConverterError (''Audio file not found: '' @ f))"
    if "f \<noteq> [] \<and> path_exists env f = Inr False"
    using validate_loop_first_missing[OF none, of f "[]" "[]" s] that
    by (simp add: validate_audio_files_def)
  have one_raising: "fst (validate_audio_files env (OneFile f) s) = Inl e"
    if "f \<noteq> [] \<and> path_exists env f = Inl e"
    using validate_loop_first_raises[OF none, of f e "[]" "[]" s] that
    by (simp add: validate_audio_files_def)
  have many: "\<exists>q\<in>set ps. path_exists env q = Inr False \<and>
         fst (validate_audio_files env (FileList ps) s) =
           Inl (AudioConverterError (''Audio file not found: '' @ q))"
    if answers: "\<forall>q\<in>set ps. path_exists env q = Inr True \<or> path_exists env q = Inr False"
      and some: "\<exists>q\<in>set ps. path_exists env q = Inr False"
  proof -
    from some obtain q0 where "q0 \<in> set ps" and "path_exists env q0 = Inr False" by blast
    then have "q0 \<in> set ps" and "path_exists env q0 \<noteq> Inr True" by simp_all
    then have "\<exists>q\<in>set ps. path_exists env q \<noteq> Inr True" by blast
    from first_missing_split[OF this] obtain xs x ys where ps: "ps = xs @ x # ys"
      and xs: "\<forall>q\<in>set xs. path_exists env q = Inr True" and x: "path_exists env x \<noteq> Inr True"
      by blast
    from answers x have x': "path_exists env x = Inr False" by (auto simp: ps)
    have "x \<in> set ps" by (simp add: ps)
    with missing[OF xs x', of ys] x' show ?thesis by (auto simp: ps)
  qed
  show ?thesis
    using empty missing[of pre p post] raising[of pre p post] one_missing one_raising many
    by blast
qed

theorem validate_audio_files_rejects_witness:
  "fst (validate_audio_files demo_env (FileList [''a.mp3'', ''c.ogg'', ''d.flac'']) demo_start) =
     Inl (AudioConverterError ''Audio file not found: c.ogg'') \<and>
   fst (validate_audio_files demo_env (OneFile ''c.ogg'') demo_start) =
     Inl (AudioConverterError ''Audio file not found: c.ogg'') \<and>
   fst (validate_audio_files demo_env (FileList []) demo_start) =
     Inl (AudioConverterError ''No audio files provided'') \<and>
   fst (validate_audio_files long_names (FileList [''a.mp3'', replicate 256 CHR ''a'', ''c.ogg''])
          demo_start) =
     Inl (OSError (''[Errno 36] File name too long: '' @
                   CHR 0x27 # replicate 256 CHR ''a'' @ [CHR 0x27]))"
proof -
  have miss: "path_exists demo_env ''c.ogg'' = Inr False" by (simp add: demo_env_def)
  have ok: "\<forall>q\<in>set [''a.mp3'']. path_exists demo_env q = Inr True" by (simp add: demo_env_def)
  have ok': "\<forall>q\<in>set [''a.mp3'']. path_exists long_names q = Inr True"
    by (simp add: long_names_def demo_env_def)
  have long: "path_exists long_names (replicate 256 CHR ''a'') =
      Inl (OSError (''[Errno 36] File name too long: '' @
                    CHR 0x27 # replicate 256 CHR ''a'' @ [CHR 0x27]))"
    by (simp add: long_names_def)
  have ne: "''c.ogg'' \<noteq> []" by simp
  from validate_audio_files_rejects[of demo_env demo_start "[''a.mp3'']" "''c.ogg''"
      "[''d.flac'']" _ "''c.ogg''"] ok miss ne
  have one: "fst (validate_audio_files demo_env (FileList [''a.mp3'', ''c.ogg'', ''d.flac'']) demo_start) =
     Inl (AudioConverterError ''Audio file not found: c.ogg'')"
    and two: "fst (validate_audio_files demo_env (OneFile ''c.ogg'') demo_start) =
     Inl (AudioConverterError ''Audio file not found: c.ogg'')"
    and three: "fst (validate_audio_files demo_env (FileList []) demo_start) =
     Inl (AudioConverterError ''No audio files provided'')"
    by simp_all
  from validate_audio_files_rejects[of long_names demo_start "[''a.mp3'']"
      "replicate 256 CHR ''a''" "[''c.ogg'']"
      "OSError (''[Errno 36] File name too long: '' @
                CHR 0x27 # replicate 256 CHR ''a'' @ [CHR 0x27])"] ok' long
  have four: "fst (validate_audio_files long_names
        (FileList [''a.mp3'', replicate 256 CHR ''a'', ''c.ogg'']) demo_start) =
     Inl (OSError (''[Errno 36] File name too long: '' @
                   CHR 0x27 # replicate 256 CHR ''a'' @ [CHR 0x27]))"
    by simp
  from one two three four show ?thesis by simp
qed

text \<open>
  Claim C9. When the paths before \<open>p\<close> all exist and \<open>p\<close> does not, the error names
  \<open>p\<close>, and the existence checks made are those of the paths before \<open>p\<close> and of
  \<open>p\<close> itself, in input order: no path after \<open>p\<close> is looked at, whether or not it
  exists.
\<close>

theorem validate_audio_files_fail_fast:
  assumes "\<forall>q\<in>set pre. path_exists env q = Inr True" and "path_exists env p = Inr False"
  shows "validate_audio_files env (FileList (pre @ p # post)) s =
           (Inl (AudioConverterError (''Audio file not found: '' @ p)),
            s\<lparr>trace := trace s @ map PathExists (pre @ [p])\<rparr>)"
  using validate_loop_first_missing[OF assms, of post "[]" s] by (simp add: validate_audio_files_def)

theorem validate_audio_files_fail_fast_witness:
  "validate_audio_files demo_env (FileList [''b.wav'', ''c.ogg'', ''a.mp3'', ''d.flac'']) demo_start =
     (Inl (AudioConverterError ''Audio file not found: c.ogg''),
      \<lparr>trace = [PathExists ''b.wav'', PathExists ''c.ogg''], conv = 0\<rparr>)"
proof -
  have pre: "\<forall>q\<in>set [''b.wav'']. path_exists demo_env q = Inr True" by (simp add: demo_env_def)
  have miss: "path_exists demo_env ''c.ogg'' = Inr False" by (simp add: demo_env_def)
  from validate_audio_files_fail_fast[OF pre miss, of "[''a.mp3'', ''d.flac'']" demo_start]
  show ?thesis by (simp add: demo_start_def)
qed

text \<open>
  Claim C10. The empty string as the files argument is rejected with the message
  \<open>No audio files provided\<close>, without any existence check; the outcome is never an
  \<open>Audio file not found\<close> error.
\<close>

theorem validate_audio_files_empty_string:
  "validate_audio_files env (OneFile '''') s =
     (Inl (AudioConverterError ''No audio files provided''), s) \<and>
   (\<forall>p. fst (validate_audio_files env (OneFile '''') s) \<noteq>
          Inl (AudioConverterError (''Audio file not found: '' @ p)))"
  by (simp add: validate_audio_files_def raise_def)

theorem validate_audio_files_empty_string_witness:
  "validate_audio_files demo_env (OneFile '''') demo_start =
     (Inl (AudioConverterError ''No audio files provided''), demo_start)"
  using validate_audio_files_empty_string[of demo_env demo_start] by simp

subsection \<open>Configuration of the converter\<close>

lemma configure_converter_run:
  assumes "audio_files params = first # others"
  shows "configure_converter converter params s =
     (case apply_conf converter params (if suffix ''.mp3'' first then 44100 else 0) (conv s) of
        (Inl e, c) \<Rightarrow>
          (Inl e, \<lparr>trace = trace s @ [ApplyConf params (if suffix ''.mp3'' first then 44100 else 0)],
                   conv = c\<rparr>)
      | (Inr u, c) \<Rightarrow>
          (Inr (), \<lparr>trace = trace s @ [ApplyConf params (if suffix ''.mp3'' first then 44100 else 0),
                              Sleep 100],
                    conv = c\<rparr>))"
  using assms
  by (simp add: configure_converter_def seq_def subscript0_def ret_def emit_def on_conv_def
      endswith_iff_suffix split: prod.splits sum.splits)

lemma configure_converter_conv:
  assumes "audio_files params = first # others"
  shows "conv (snd (configure_converter converter params s)) =
           snd (apply_conf converter params (if suffix ''.mp3'' first then 44100 else 0) (conv s))"
  by (simp add: configure_converter_run[OF assms] split: prod.splits sum.splits)

text \<open>
  Claim C4. The resample rate that the configuration step passes to
  \<^verbatim>\<open>converter.apply_conf\<close> depends only on the first audio file of the configuration:
  it is 44100 when that path ends in \<open>.mp3\<close> and 0 otherwise, whatever the later files
  of the list are. The step is this one call of \<^verbatim>\<open>apply_conf\<close>, on the configuration
  and that rate: its exception is the exception of the step, the state it leaves in the
  converter is the state the step leaves, and when it returns the step sleeps for
  100 ms. In \<^verbatim>\<open>mainpipe\<close> the audio files of the configuration are the validated files.
\<close>

theorem configure_converter_sample_rate:
  assumes "audio_files params = first # others"
  shows "(let rate = (if suffix ''.mp3'' first then 44100 else 0) in
          configure_converter converter params s =
            (case apply_conf converter params rate (conv s) of
               (Inl e, c) \<Rightarrow>
                 (Inl e, \<lparr>trace = trace s @ [ApplyConf params rate], conv = c\<rparr>)
             | (Inr u, c) \<Rightarrow>
                 (Inr (), \<lparr>trace = trace s @ [ApplyConf params rate, Sleep 100], conv = c\<rparr>))) \<and>
         audio_files (build_config_params tg mc pa pl ii rmf er cbp (first # others)) =
           first # others"
  unfolding Let_def
  by (rule conjI, rule configure_converter_run[OF assms]) (simp add: build_config_params_def)

theorem configure_converter_sample_rate_witness:
  "configure_converter recording_converter demo_params recording_start =
     (Inr (), \<lparr>trace = [ApplyConf demo_params 44100, Sleep 100], conv = [Configured 44100]\<rparr>) \<and>
   configure_converter recording_converter
       (demo_params\<lparr>audio_files := [''/srv/b.wav'', ''/srv/a.mp3'']\<rparr>) recording_start =
     (Inr (), \<lparr>trace = [ApplyConf (demo_params\<lparr>audio_files := [''/srv/b.wav'', ''/srv/a.mp3'']\<rparr>) 0,
                        Sleep 100],
               conv = [Configured 0]\<rparr>)"
proof -
  have a: "audio_files demo_params = ''/srv/a.mp3'' # [''/srv/b.wav'']"
    by (simp add: demo_params_def)
  have b: "audio_files (demo_params\<lparr>audio_files := [''/srv/b.wav'', ''/srv/a.mp3'']\<rparr>) =
             ''/srv/b.wav'' # [''/srv/a.mp3'']"
    by simp
  have mp3: "suffix ''.mp3'' ''/srv/a.mp3''" by (simp add: suffix_def)
  have wav: "\<not> suffix ''.mp3'' ''/srv/b.wav''" by (simp add: suffix_def)
  from configure_converter_sample_rate[OF a, of recording_converter recording_start,
      THEN conjunct1] mp3
  have one: "configure_converter recording_converter demo_params recording_start =
     (Inr (), \<lparr>trace = [ApplyConf demo_params 44100, Sleep 100], conv = [Configured 44100]\<rparr>)"
    by (simp add: Let_def recording_converter_def recording_start_def)
  from configure_converter_sample_rate[OF b, of recording_converter recording_start,
      THEN conjunct1] wav
  have two: "configure_converter recording_converter
       (demo_params\<lparr>audio_files := [''/srv/b.wav'', ''/srv/a.mp3'']\<rparr>) recording_start =
     (Inr (), \<lparr>trace = [ApplyConf (demo_params\<lparr>audio_files := [''/srv/b.wav'', ''/srv/a.mp3'']\<rparr>) 0,
                        Sleep 100],
               conv = [Configured 0]\<rparr>)"
    by (simp add: Let_def recording_converter_def recording_start_def)
  show ?thesis using one two by simp
qed

subsection \<open>The pipeline\<close>

lemma validate_loop_trace:
  "validate_loop env ps acc s = (r, s1) \<Longrightarrow>
   \<exists>qs. trace s1 = trace s @ map PathExists qs \<and> conv s1 = conv s"
proof (induction ps arbitrary: acc s)
  case Nil
  then have "s1 = s" by (simp add: ret_def)
  then show ?case by (intro exI[of _ "[]"]) simp
next
  case (Cons p ps)
  show ?case
  proof (cases "path_exists env p = Inr True")
    case False
    with Cons.prems have "s1 = s\<lparr>trace := trace s @ [PathExists p]\<rparr>"
      by (cases "path_exists env p") (auto simp: seq_def emit_def raise_def lift_def)
    then show ?thesis by (intro exI[of _ "[p]"]) simp
  next
    case True
    with Cons.prems have "validate_loop env ps (acc @ [path_absolute env p])
        (s\<lparr>trace := trace s @ [PathExists p]\<rparr>) = (r, s1)"
      by (simp add: seq_def emit_def lift_def)
    from Cons.IH[OF this] obtain qs where
      "trace s1 = trace s @ PathExists p # map PathExists qs" and "conv s1 = conv s"
      by auto
    then show ?thesis by (intro exI[of _ "p # qs"]) simp
  qed
qed

lemma validate_loop_length:
  "validate_loop env ps acc s = (Inr out, s1) \<Longrightarrow> length out = length acc + length ps"
proof (induction ps arbitrary: acc s)
  case Nil
  then show ?case by (simp add: ret_def)
next
  case (Cons p ps)
  show ?case
  proof (cases "path_exists env p = Inr True")
    case False
    with Cons.prems show ?thesis
      by (cases "path_exists env p") (auto simp: seq_def emit_def raise_def lift_def)
  next
    case True
    with Cons.prems have "validate_loop env ps (acc @ [path_absolute env p])
        (s\<lparr>trace := trace s @ [PathExists p]\<rparr>) = (Inr out, s1)"
      by (simp add: seq_def emit_def lift_def)
    from Cons.IH[OF this] show ?thesis by simp
  qed
qed

lemma validate_audio_files_trace:
  assumes "validate_audio_files env files s = (r, s1)"
  shows "\<exists>qs. trace s1 = trace s @ map PathExists qs \<and> conv s1 = conv s"
proof (cases "is_falsy files")
  case True
  with assms have "s1 = s" by (simp add: validate_audio_files_def raise_def)
  then show ?thesis by (intro exI[of _ "[]"]) simp
next
  case False
  with assms have "validate_loop env (normalize_files files) [] s = (r, s1)"
    by (simp add: validate_audio_files_def)
  then show ?thesis by (rule validate_loop_trace)
qed

lemma validate_audio_files_nonempty:
  assumes "validate_audio_files env files s = (Inr out, s1)"
  shows "out \<noteq> []"
proof (cases "is_falsy files")
  case True
  with assms show ?thesis by (simp add: validate_audio_files_def raise_def)
next
  case False
  with assms have run: "validate_loop env (normalize_files files) [] s = (Inr out, s1)"
    by (simp add: validate_audio_files_def)
  from False have "normalize_files files \<noteq> []" by (cases files) simp_all
  with validate_loop_length[OF run] show ?thesis by auto
qed

lemma mainpipe_body_after_validation:
  assumes "validate_audio_files env af s = (Inr (first # others), s1)"
  shows "mainpipe_body env model af pa pl ii rmf er cbp converter s =
    (case get_duration env first of
       Inl e \<Rightarrow> (Inl e, s1\<lparr>trace := trace s1 @ [GetDuration first]\<rparr>)
     | Inr d \<Rightarrow>
        (case resolve_model (MODELS env) model of
           Inl e \<Rightarrow> (Inl e, s1\<lparr>trace := trace s1 @ [GetDuration first]\<rparr>)
         | Inr mc \<Rightarrow>
            (case configure_converter converter
                    (build_config_params (generate_random_tag env) mc pa pl ii rmf er cbp
                       (first # others))
                    (s1\<lparr>trace := trace s1 @ [GetDuration first]\<rparr>) of
               (Inl e, s2) \<Rightarrow> (Inl e, s2)
             | (Inr u, s2) \<Rightarrow>
                (case call converter (first # others) (generate_random_tag env) False 8 (conv s2) of
                   (Inl e, c) \<Rightarrow>
                     (Inl e, \<lparr>trace = trace s2 @
                                [Convert (first # others) (generate_random_tag env) False 8],
                              conv = c\<rparr>)
                 | (Inr rs, c) \<Rightarrow>
                     (case rs of
                        [] \<Rightarrow> (Inl (IndexError ''list index out of range''),
                               \<lparr>trace = trace s2 @
                                  [Convert (first # others) (generate_random_tag env) False 8],
                                conv = c\<rparr>)
                      | x # _ \<Rightarrow> (Inr x,
                               \<lparr>trace = trace s2 @
                                  [Convert (first # others) (generate_random_tag env) False 8],
                                conv = c\<rparr>))))))"
  using assms
  by (simp add: mainpipe_body_def seq_def subscript0_def ret_def raise_def emit_def lift_def
      on_conv_def Let_def split: prod.splits sum.splits list.splits)

lemma validate_loop_result:
  "validate_loop env ps acc s = (Inr out, s1) \<Longrightarrow> out = acc @ map (path_absolute env) ps"
proof (induction ps arbitrary: acc s)
  case Nil
  then show ?case by (simp add: ret_def)
next
  case (Cons p ps)
  show ?case
  proof (cases "path_exists env p = Inr True")
    case False
    with Cons.prems show ?thesis
      by (cases "path_exists env p") (auto simp: seq_def emit_def raise_def lift_def)
  next
    case True
    with Cons.prems have "validate_loop env ps (acc @ [path_absolute env p])
        (s\<lparr>trace := trace s @ [PathExists p]\<rparr>) = (Inr out, s1)"
      by (simp add: seq_def emit_def lift_def)
    from Cons.IH[OF this] show ?thesis by simp
  qed
qed

lemma validate_audio_files_result:
  assumes "validate_audio_files env files s = (Inr out, s1)"
  shows "out = map (path_absolute env) (normalize_files files)"
proof (cases "is_falsy files")
  case True
  with assms show ?thesis by (simp add: validate_audio_files_def raise_def)
next
  case False
  with assms have "validate_loop env (normalize_files files) [] s = (Inr out, s1)"
    by (simp add: validate_audio_files_def)
  from validate_loop_result[OF this] show ?thesis by simp
qed

lemma mainpipe_wraps:
  "mainpipe env m af pa pl ii rmf er cbp cv s =
     (case mainpipe_body env m af pa pl ii rmf er cbp cv s of
        (Inl e, s') \<Rightarrow> (Inl (AudioConverterError (''Conversion failed: '' @ str_exn e)), s')
      | (Inr r, s') \<Rightarrow> (Inr r, s'))"
  by (simp add: mainpipe_def try_except_def raise_def split: prod.splits sum.splits)

lemma mainpipe_body_validation_fails:
  assumes "fst (validate_audio_files env af s) = Inl e"
  shows "fst (mainpipe_body env m af pa pl ii rmf er cbp cv s) = Inl e"
  using assms
  by (cases "validate_audio_files env af s") (simp add: mainpipe_body_def seq_def)

lemma audio_files_build_config_params [simp]:
  "audio_files (build_config_params tg mc pa pl ii rmf er cbp files) = files"
  by (simp add: build_config_params_def)

lemma mainpipe_body_trace:
  assumes "validate_audio_files env af s = (Inr (first # others), s1)"
  shows "\<exists>mid. trace (snd (mainpipe_body env m af pa pl ii rmf er cbp cv s)) =
            trace s1 @ GetDuration first # mid \<and>
          (filter is_Convert mid = [] \<or>
           filter is_Convert mid = [Convert (first # others) (generate_random_tag env) False 8])"
proof (cases "get_duration env first")
  case (Inl e)
  then show ?thesis
    by (simp add: mainpipe_body_after_validation[OF assms])
next
  case d: (Inr d)
  show ?thesis
  proof (cases "resolve_model (MODELS env) m")
    case (Inl e)
    with d show ?thesis by (simp add: mainpipe_body_after_validation[OF assms])
  next
    case mc: (Inr mc)
    let ?cfg = "build_config_params (generate_random_tag env) mc pa pl ii rmf er cbp (first # others)"
    let ?s2 = "s1\<lparr>trace := trace s1 @ [GetDuration first]\<rparr>"
    have af: "audio_files ?cfg = first # others" by simp
    note run = configure_converter_run[OF af, of cv ?s2]
    show ?thesis
      using d mc run
      by (auto simp: mainpipe_body_after_validation[OF assms] split: prod.splits sum.splits list.splits)
  qed
qed

lemma mainpipe_body_stage_failure:
  assumes v: "validate_audio_files env af s = (Inr files, sv)"
  shows "get_duration env (hd files) = Inl e \<Longrightarrow>
           fst (mainpipe_body env m af pa pl ii rmf er cbp cv s) = Inl e"
    and "get_duration env (hd files) = Inr d \<Longrightarrow> resolve_model (MODELS env) m = Inl e \<Longrightarrow>
           fst (mainpipe_body env m af pa pl ii rmf er cbp cv s) = Inl e"
    and "get_duration env (hd files) = Inr d \<Longrightarrow> resolve_model (MODELS env) m = Inr mc \<Longrightarrow>
         fst (configure_converter cv
                (build_config_params (generate_random_tag env) mc pa pl ii rmf er cbp files)
                (sv\<lparr>trace := trace sv @ [GetDuration (hd files)]\<rparr>)) = Inl e \<Longrightarrow>
           fst (mainpipe_body env m af pa pl ii rmf er cbp cv s) = Inl e"
    and "get_duration env (hd files) = Inr d \<Longrightarrow> resolve_model (MODELS env) m = Inr mc \<Longrightarrow>
         configure_converter cv
            (build_config_params (generate_random_tag env) mc pa pl ii rmf er cbp files)
            (sv\<lparr>trace := trace sv @ [GetDuration (hd files)]\<rparr>) = (Inr (), sc) \<Longrightarrow>
         fst (call cv files (generate_random_tag env) False 8 (conv sc)) = Inl e \<Longrightarrow>
           fst (mainpipe_body env m af pa pl ii rmf er cbp cv s) = Inl e"
    and "get_duration env (hd files) = Inr d \<Longrightarrow> resolve_model (MODELS env) m = Inr mc \<Longrightarrow>
         configure_converter cv
            (build_config_params (generate_random_tag env) mc pa pl ii rmf er cbp files)
            (sv\<lparr>trace := trace sv @ [GetDuration (hd files)]\<rparr>) = (Inr (), sc) \<Longrightarrow>
         call cv files (generate_random_tag env) False 8 (conv sc) = (Inr rs, c) \<Longrightarrow>
           fst (mainpipe_body env m af pa pl ii rmf er cbp cv s) =
             (case rs of [] \<Rightarrow> Inl (IndexError ''list index out of range'') | x # _ \<Rightarrow> Inr x)"
proof -
  from validate_audio_files_nonempty[OF v] obtain first others where f: "files = first # others"
    by (cases files) auto
  note nf = mainpipe_body_after_validation[OF v[unfolded f], of m pa pl ii rmf er cbp cv]
  show "get_duration env (hd files) = Inl e \<Longrightarrow>
           fst (mainpipe_body env m af pa pl ii rmf er cbp cv s) = Inl e"
    by (simp add: nf f)
  show "get_duration env (hd files) = Inr d \<Longrightarrow> resolve_model (MODELS env) m = Inl e \<Longrightarrow>
           fst (mainpipe_body env m af pa pl ii rmf er cbp cv s) = Inl e"
    by (simp add: nf f)
  show "get_duration env (hd files) = Inr d \<Longrightarrow> resolve_model (MODELS env) m = Inr mc \<Longrightarrow>
         fst (configure_converter cv
                (build_config_params (generate_random_tag env) mc pa pl ii rmf er cbp files)
                (sv\<lparr>trace := trace sv @ [GetDuration (hd files)]\<rparr>)) = Inl e \<Longrightarrow>
           fst (mainpipe_body env m af pa pl ii rmf er cbp cv s) = Inl e"
    by (auto simp: nf f split: prod.splits sum.splits)
  show "get_duration env (hd files) = Inr d \<Longrightarrow> resolve_model (MODELS env) m = Inr mc \<Longrightarrow>
         configure_converter cv
            (build_config_params (generate_random_tag env) mc pa pl ii rmf er cbp files)
            (sv\<lparr>trace := trace sv @ [GetDuration (hd files)]\<rparr>) = (Inr (), sc) \<Longrightarrow>
         fst (call cv files (generate_random_tag env) False 8 (conv sc)) = Inl e \<Longrightarrow>
           fst (mainpipe_body env m af pa pl ii rmf er cbp cv s) = Inl e"
    by (auto simp: nf f split: prod.splits sum.splits)
  show "get_duration env (hd files) = Inr d \<Longrightarrow> resolve_model (MODELS env) m = Inr mc \<Longrightarrow>
         configure_converter cv
            (build_config_params (generate_random_tag env) mc pa pl ii rmf er cbp files)
            (sv\<lparr>trace := trace sv @ [GetDuration (hd files)]\<rparr>) = (Inr (), sc) \<Longrightarrow>
         call cv files (generate_random_tag env) False 8 (conv sc) = (Inr rs, c) \<Longrightarrow>
           fst (mainpipe_body env m af pa pl ii rmf er cbp cv s) =
             (case rs of [] \<Rightarrow> Inl (IndexError ''list index out of range'') | x # _ \<Rightarrow> Inr x)"
    by (auto simp: nf f split: prod.splits sum.splits list.splits)
qed

lemma mainpipe_of_body_failure:
  "fst (mainpipe_body env m af pa pl ii rmf er cbp cv s) = Inl e \<Longrightarrow>
   fst (mainpipe env m af pa pl ii rmf er cbp cv s) =
     Inl (AudioConverterError (''Conversion failed: '' @ str_exn e))"
  by (cases "mainpipe_body env m af pa pl ii rmf er cbp cv s") (auto simp: mainpipe_wraps split: sum.splits)

lemma mainpipe_of_body_success:
  "fst (mainpipe_body env m af pa pl ii rmf er cbp cv s) = Inr r \<Longrightarrow>
   fst (mainpipe env m af pa pl ii rmf er cbp cv s) = Inr r"
  by (cases "mainpipe_body env m af pa pl ii rmf er cbp cv s") (auto simp: mainpipe_wraps split: sum.splits)

lemma mainpipe_state:
  "snd (mainpipe env m af pa pl ii rmf er cbp cv s) =
   snd (mainpipe_body env m af pa pl ii rmf er cbp cv s)"
  by (cases "mainpipe_body env m af pa pl ii rmf er cbp cv s") (auto simp: mainpipe_wraps split: sum.splits)

lemma filter_is_Convert_PathExists [simp]: "filter is_Convert (map PathExists qs) = []"
  by (induction qs) simp_all

lemma mainpipe_body_validation_raises:
  assumes "validate_audio_files env af s = (Inl e, sv)"
  shows "mainpipe_body env m af pa pl ii rmf er cbp cv s = (Inl e, sv)"
  using assms by (simp add: mainpipe_body_def seq_def)

lemma mainpipe_convert_events:
  "\<exists>new. trace (snd (mainpipe env m af pa pl ii rmf er cbp cv s)) = trace s @ new \<and>
     (filter is_Convert new = [] \<or>
      filter is_Convert new =
        [Convert (map (path_absolute env) (normalize_files af)) (generate_random_tag env) False 8])"
proof (cases "validate_audio_files env af s")
  case (Pair r st)
  let ?T = "trace (snd (mainpipe env m af pa pl ii rmf er cbp cv s))"
  have T: "?T = trace (snd (mainpipe_body env m af pa pl ii rmf er cbp cv s))"
    by (simp add: mainpipe_state)
  from validate_audio_files_trace[OF Pair] obtain qs where
    qs: "trace st = trace s @ map PathExists qs" by blast
  show ?thesis
  proof (cases r)
    case (Inl e)
    with Pair have "mainpipe_body env m af pa pl ii rmf er cbp cv s = (Inl e, st)"
      by (simp add: mainpipe_body_validation_raises)
    with T qs show ?thesis by (intro exI[of _ "map PathExists qs"]) simp
  next
    case (Inr out)
    with Pair have v: "validate_audio_files env af s = (Inr out, st)" by simp
    from validate_audio_files_nonempty[OF v] obtain first others where
      out: "out = first # others" by (cases out) auto
    from validate_audio_files_result[OF v]
    have F: "out = map (path_absolute env) (normalize_files af)" .
    from mainpipe_body_trace[OF v[unfolded out], of m pa pl ii rmf er cbp cv]
    obtain mid where
      mid: "trace (snd (mainpipe_body env m af pa pl ii rmf er cbp cv s)) =
              trace st @ GetDuration first # mid"
      and once: "filter is_Convert mid = [] \<or>
                 filter is_Convert mid = [Convert (first # others) (generate_random_tag env) False 8]"
      by blast
    show ?thesis
      using T qs mid once out F
      by (intro exI[of _ "map PathExists qs @ GetDuration first # mid"]) auto
  qed
qed

lemma mainpipe_from_converting:
  assumes v: "validate_audio_files env af s = (Inr files, sv)"
    and g: "get_duration env (hd files) = Inr d"
    and r: "resolve_model (MODELS env) m = Inr mc"
    and c: "configure_converter cv
              (build_config_params (generate_random_tag env) mc pa pl ii rmf er cbp files)
              (sv\<lparr>trace := trace sv @ [GetDuration (hd files)]\<rparr>) = (Inr (), sc)"
  shows "mainpipe env m af pa pl ii rmf er cbp cv s =
     (case call cv files (generate_random_tag env) False 8 (conv sc) of
        (Inl e, c') \<Rightarrow>
          (Inl (AudioConverterError (''Conversion failed: '' @ str_exn e)),
           \<lparr>trace = trace sc @ [Convert files (generate_random_tag env) False 8], conv = c'\<rparr>)
      | (Inr rs, c') \<Rightarrow>
          (case rs of
             [] \<Rightarrow> Inl (AudioConverterError ''Conversion failed: list index out of range'')
           | x # _ \<Rightarrow> Inr x,
           \<lparr>trace = trace sc @ [Convert files (generate_random_tag env) False 8], conv = c'\<rparr>))"
proof -
  from validate_audio_files_nonempty[OF v] obtain first others where
    out: "files = first # others" by (cases files) auto
  show ?thesis
    using g r c unfolding out
    by (simp add: mainpipe_wraps mainpipe_body_after_validation[OF v[unfolded out]]
        split: prod.splits sum.splits list.splits)
qed

lemma mainpipe_configured_state:
  assumes v: "validate_audio_files env af s = (Inr files, sv)"
    and c: "configure_converter cv
              (build_config_params tg mc pa pl ii rmf er cbp files)
              (sv\<lparr>trace := trace sv @ [GetDuration (hd files)]\<rparr>) = (Inr (), sc)"
  shows "conv sc =
           snd (apply_conf cv (build_config_params tg mc pa pl ii rmf er cbp files)
                  (if suffix ''.mp3'' (hd files) then 44100 else 0) (conv s))"
    and "filter is_Convert (trace sc) = filter is_Convert (trace s)"
proof -
  let ?cfg = "build_config_params tg mc pa pl ii rmf er cbp files"
  let ?st = "sv\<lparr>trace := trace sv @ [GetDuration (hd files)]\<rparr>"
  from validate_audio_files_trace[OF v] obtain qs where
    qs: "trace sv = trace s @ map PathExists qs" and same: "conv sv = conv s" by blast
  from validate_audio_files_nonempty[OF v] obtain first others where
    out: "files = first # others" by (cases files) auto
  have af: "audio_files ?cfg = first # others" by (simp add: out)
  from configure_converter_conv[OF af, of cv ?st] c same
  show "conv sc = snd (apply_conf cv ?cfg (if suffix ''.mp3'' (hd files) then 44100 else 0) (conv s))"
    by (simp add: out)
  obtain x c0 where ap: "apply_conf cv ?cfg (if suffix ''.mp3'' first then 44100 else 0) (conv ?st) = (x, c0)"
    by (cases "apply_conf cv ?cfg (if suffix ''.mp3'' first then 44100 else 0) (conv ?st)")
  from configure_converter_run[OF af, of cv ?st] c ap
  have "trace sc = trace ?st @
          [ApplyConf ?cfg (if suffix ''.mp3'' first then 44100 else 0), Sleep 100]"
    by (cases x) auto
  with qs show "filter is_Convert (trace sc) = filter is_Convert (trace s)"
    by simp
qed

subsection \<open>The pipeline in the concrete setting\<close>

lemma demo_validate_two:
  "validate_audio_files demo_env (FileList [''a.mp3'', ''b.wav'']) demo_start =
     (Inr [''/srv/a.mp3'', ''/srv/b.wav''],
      \<lparr>trace = [PathExists ''a.mp3'', PathExists ''b.wav''], conv = 0\<rparr>)"
  by (simp add: validate_audio_files_def demo_env_def demo_start_def seq_def emit_def ret_def
      lift_def)

lemma demo_validate_one:
  "validate_audio_files demo_env (OneFile ''a.mp3'') demo_start =
     (Inr [''/srv/a.mp3''], \<lparr>trace = [PathExists ''a.mp3''], conv = 0\<rparr>)"
  by (simp add: validate_audio_files_def demo_env_def demo_start_def seq_def emit_def ret_def
      lift_def)

lemma broken_probe_validate_one:
  "validate_audio_files broken_probe (OneFile ''a.mp3'') demo_start =
     (Inr [''/srv/a.mp3''], \<lparr>trace = [PathExists ''a.mp3''], conv = 0\<rparr>)"
  by (simp add: validate_audio_files_def broken_probe_def demo_env_def demo_start_def
      seq_def emit_def ret_def lift_def)

lemma demo_resolve_X:
  "resolve_model (MODELS demo_env) ''X'' =
     Inr \<lparr>model_name = ''X'', model_file = ''x.pth'', index_file = ''x.index''\<rparr>"
  by (simp add: resolve_model_def demo_env_def endswith_def)

lemma demo_tag: "generate_random_tag demo_env = ''USER_12345678''"
  by (simp add: generate_random_tag_def demo_env_def str_int_def str_nat.simps digit_char_def)

lemma demo_configure:
  assumes "audio_files p = x # xs"
  shows "fst (configure_converter demo_converter p st) = Inr ()"
    and "fst (configure_converter mute_converter p st) = Inr ()"
  using configure_converter_run[OF assms, of demo_converter st]
    configure_converter_run[OF assms, of mute_converter st]
  by (simp_all add: demo_converter_def mute_converter_def)

lemma recording_validate_two:
  "validate_audio_files demo_env (FileList [''a.mp3'', ''b.wav'']) recording_start =
     (Inr [''/srv/a.mp3'', ''/srv/b.wav''],
      \<lparr>trace = [PathExists ''a.mp3'', PathExists ''b.wav''], conv = []\<rparr>)"
  by (simp add: validate_audio_files_def demo_env_def recording_start_def seq_def emit_def ret_def
      lift_def)

lemma demo_build_config_params:
  "build_config_params (generate_random_tag demo_env)
     \<lparr>model_name = ''X'', model_file = ''x.pth'', index_file = ''x.index''\<rparr>
     ''rmvpe'' 0 1 True 2 False [''/srv/a.mp3'', ''/srv/b.wav''] = demo_params"
  by (simp add: build_config_params_def demo_params_def demo_tag)

lemma recording_configure:
  "configure_converter recording_converter demo_params
     \<lparr>trace = [PathExists ''a.mp3'', PathExists ''b.wav'', GetDuration ''/srv/a.mp3''], conv = []\<rparr> =
   (Inr (), \<lparr>trace = [PathExists ''a.mp3'', PathExists ''b.wav'', GetDuration ''/srv/a.mp3'',
                      ApplyConf demo_params 44100, Sleep 100],
             conv = [Configured 44100]\<rparr>)"
proof -
  have a: "audio_files demo_params = ''/srv/a.mp3'' # [''/srv/b.wav'']"
    by (simp add: demo_params_def)
  have mp3: "suffix ''.mp3'' ''/srv/a.mp3''" by (simp add: suffix_def)
  from configure_converter_run[OF a, of recording_converter
      "\<lparr>trace = [PathExists ''a.mp3'', PathExists ''b.wav'', GetDuration ''/srv/a.mp3''], conv = []\<rparr>"]
    mp3
  show ?thesis by (simp add: recording_converter_def)
qed

subsection \<open>Failures of the pipeline\<close>

text \<open>
  Claim C1. A call of \<^verbatim>\<open>mainpipe\<close> either returns a result, or raises one
  \<^verbatim>\<open>AudioConverterError\<close> whose message is \<open>Conversion failed: \<close> followed by the text
  of the exception that left the body of the \<^verbatim>\<open>try\<close> block. The handler makes no further
  external call: the state after \<^verbatim>\<open>mainpipe\<close> is the state in which the body stopped, so
  nothing is retried. Stage by stage: an exception of the validation, of the duration
  probe, of the model resolution, of the configuration, of the converter call, and the
  \<^verbatim>\<open>IndexError\<close> of the result extraction all reach the caller in this wrapped form.
\<close>

theorem mainpipe_uniform_failure:
  "((\<exists>r. fst (mainpipe env m af pa pl ii rmf er cbp cv s) = Inr r) \<or>
    (\<exists>x. fst (mainpipe_body env m af pa pl ii rmf er cbp cv s) = Inl x \<and>
         fst (mainpipe env m af pa pl ii rmf er cbp cv s) =
           Inl (AudioConverterError (''Conversion failed: '' @ str_exn x)))) \<and>
   snd (mainpipe env m af pa pl ii rmf er cbp cv s) =
     snd (mainpipe_body env m af pa pl ii rmf er cbp cv s) \<and>
   (fst (validate_audio_files env af s) = Inl e \<longrightarrow>
      fst (mainpipe env m af pa pl ii rmf er cbp cv s) =
        Inl (AudioConverterError (''Conversion failed: '' @ str_exn e))) \<and>
   (validate_audio_files env af s = (Inr files, sv) \<and> get_duration env (hd files) = Inl e \<longrightarrow>
      fst (mainpipe env m af pa pl ii rmf er cbp cv s) =
        Inl (AudioConverterError (''Conversion failed: '' @ str_exn e))) \<and>
   (validate_audio_files env af s = (Inr files, sv) \<and> get_duration env (hd files) = Inr d \<and>
    resolve_model (MODELS env) m = Inl e \<longrightarrow>
      fst (mainpipe env m af pa pl ii rmf er cbp cv s) =
        Inl (AudioConverterError (''Conversion failed: '' @ str_exn e))) \<and>
   (validate_audio_files env af s = (Inr files, sv) \<and> get_duration env (hd files) = Inr d \<and>
    resolve_model (MODELS env) m = Inr mc \<and>
    fst (configure_converter cv
           (build_config_params (generate_random_tag env) mc pa pl ii rmf er cbp files)
           (sv\<lparr>trace := trace sv @ [GetDuration (hd files)]\<rparr>)) = Inl e \<longrightarrow>
      fst (mainpipe env m af pa pl ii rmf er cbp cv s) =
        Inl (AudioConverterError (''Conversion failed: '' @ str_exn e))) \<and>
   (validate_audio_files env af s = (Inr files, sv) \<and> get_duration env (hd files) = Inr d \<and>
    resolve_model (MODELS env) m = Inr mc \<and>
    configure_converter cv
       (build_config_params (generate_random_tag env) mc pa pl ii rmf er cbp files)
       (sv\<lparr>trace := trace sv @ [GetDuration (hd files)]\<rparr>) = (Inr (), sc) \<and>
    fst (call cv files (generate_random_tag env) False 8 (conv sc)) = Inl e \<longrightarrow>
      fst (mainpipe env m af pa pl ii rmf er cbp cv s) =
        Inl (AudioConverterError (''Conversion failed: '' @ str_exn e))) \<and>
   (validate_audio_files env af s = (Inr files, sv) \<and> get_duration env (hd files) = Inr d \<and>
    resolve_model (MODELS env) m = Inr mc \<and>
    configure_converter cv
       (build_config_params (generate_random_tag env) mc pa pl ii rmf er cbp files)
       (sv\<lparr>trace := trace sv @ [GetDuration (hd files)]\<rparr>) = (Inr (), sc) \<and>
    call cv files (generate_random_tag env) False 8 (conv sc) = (Inr [], cc) \<longrightarrow>
      fst (mainpipe env m af pa pl ii rmf er cbp cv s) =
        Inl (AudioConverterError ''Conversion failed: list index out of range''))"
proof (intro conjI impI)
  show "(\<exists>r. fst (mainpipe env m af pa pl ii rmf er cbp cv s) = Inr r) \<or>
    (\<exists>x. fst (mainpipe_body env m af pa pl ii rmf er cbp cv s) = Inl x \<and>
         fst (mainpipe env m af pa pl ii rmf er cbp cv s) =
           Inl (AudioConverterError (''Conversion failed: '' @ str_exn x)))"
  proof (cases "fst (mainpipe_body env m af pa pl ii rmf er cbp cv s)")
    case (Inl x)
    from mainpipe_of_body_failure[OF Inl] Inl show ?thesis
      by (intro disjI2 exI[of _ x]) simp
  next
    case (Inr r)
    from mainpipe_of_body_success[OF Inr] show ?thesis
      by (intro disjI1 exI[of _ r])
  qed
next
  show "snd (mainpipe env m af pa pl ii rmf er cbp cv s) =
     snd (mainpipe_body env m af pa pl ii rmf er cbp cv s)"
    by (rule mainpipe_state)
next
  assume "fst (validate_audio_files env af s) = Inl e"
  then show "fst (mainpipe env m af pa pl ii rmf er cbp cv s) =
        Inl (AudioConverterError (''Conversion failed: '' @ str_exn e))"
    by (intro mainpipe_of_body_failure mainpipe_body_validation_fails)
next
  assume h: "validate_audio_files env af s = (Inr files, sv) \<and> get_duration env (hd files) = Inl e"
  from h have v: "validate_audio_files env af s = (Inr files, sv)"
    and a: "get_duration env (hd files) = Inl e" by simp_all
  show "fst (mainpipe env m af pa pl ii rmf er cbp cv s) =
        Inl (AudioConverterError (''Conversion failed: '' @ str_exn e))"
    by (rule mainpipe_of_body_failure[OF mainpipe_body_stage_failure(1)[OF v a]])
next
  assume h: "validate_audio_files env af s = (Inr files, sv) \<and> get_duration env (hd files) = Inr d \<and>
    resolve_model (MODELS env) m = Inl e"
  from h have v: "validate_audio_files env af s = (Inr files, sv)"
    and a: "get_duration env (hd files) = Inr d"
    and b: "resolve_model (MODELS env) m = Inl e" by simp_all
  show "fst (mainpipe env m af pa pl ii rmf er cbp cv s) =
        Inl (AudioConverterError (''Conversion failed: '' @ str_exn e))"
    by (rule mainpipe_of_body_failure[OF mainpipe_body_stage_failure(2)[OF v a b]])
next
  assume h: "validate_audio_files env af s = (Inr files, sv) \<and> get_duration env (hd files) = Inr d \<and>
    resolve_model (MODELS env) m = Inr mc \<and>
    fst (configure_converter cv
           (build_config_params (generate_random_tag env) mc pa pl ii rmf er cbp files)
           (sv\<lparr>trace := trace sv @ [GetDuration (hd files)]\<rparr>)) = Inl e"
  from h have v: "validate_audio_files env af s = (Inr files, sv)"
    and a: "get_duration env (hd files) = Inr d"
    and b: "resolve_model (MODELS env) m = Inr mc"
    and c: "fst (configure_converter cv
           (build_config_params (generate_random_tag env) mc pa pl ii rmf er cbp files)
           (sv\<lparr>trace := trace sv @ [GetDuration (hd files)]\<rparr>)) = Inl e" by simp_all
  show "fst (mainpipe env m af pa pl ii rmf er cbp cv s) =
        Inl (AudioConverterError (''Conversion failed: '' @ str_exn e))"
    by (rule mainpipe_of_body_failure[OF mainpipe_body_stage_failure(3)[OF v a b c]])
next
  assume h: "validate_audio_files env af s = (Inr files, sv) \<and> get_duration env (hd files) = Inr d \<and>
    resolve_model (MODELS env) m = Inr mc \<and>
    configure_converter cv
       (build_config_params (generate_random_tag env) mc pa pl ii rmf er cbp files)
           (sv\<lparr>trace := trace sv @ [GetDuration (hd files)]\<rparr>) = (Inr (), sc) \<and>
    fst (call cv files (generate_random_tag env) False 8 (conv sc)) = Inl e"
  from h have v: "validate_audio_files env af s = (Inr files, sv)"
    and a: "get_duration env (hd files) = Inr d"
    and b: "resolve_model (MODELS env) m = Inr mc"
    and c: "configure_converter cv
       (build_config_params (generate_random_tag env) mc pa pl ii rmf er cbp files)
           (sv\<lparr>trace := trace sv @ [GetDuration (hd files)]\<rparr>) = (Inr (), sc)"
    and d: "fst (call cv files (generate_random_tag env) False 8 (conv sc)) = Inl e" by simp_all
  show "fst (mainpipe env m af pa pl ii rmf er cbp cv s) =
        Inl (AudioConverterError (''Conversion failed: '' @ str_exn e))"
    by (rule mainpipe_of_body_failure[OF mainpipe_body_stage_failure(4)[OF v a b c d]])
next
  assume h: "validate_audio_files env af s = (Inr files, sv) \<and> get_duration env (hd files) = Inr d \<and>
    resolve_model (MODELS env) m = Inr mc \<and>
    configure_converter cv
       (build_config_params (generate_random_tag env) mc pa pl ii rmf er cbp files)
           (sv\<lparr>trace := trace sv @ [GetDuration (hd files)]\<rparr>) = (Inr (), sc) \<and>
    call cv files (generate_random_tag env) False 8 (conv sc) = (Inr [], cc)"
  from h have v: "validate_audio_files env af s = (Inr files, sv)"
    and a: "get_duration env (hd files) = Inr d"
    and b: "resolve_model (MODELS env) m = Inr mc"
    and c: "configure_converter cv
       (build_config_params (generate_random_tag env) mc pa pl ii rmf er cbp files)
           (sv\<lparr>trace := trace sv @ [GetDuration (hd files)]\<rparr>) = (Inr (), sc)"
    and d: "call cv files (generate_random_tag env) False 8 (conv sc) = (Inr [], cc)" by simp_all
  from mainpipe_body_stage_failure(5)[OF v a b c d]
  have "fst (mainpipe_body env m af pa pl ii rmf er cbp cv s) =
          Inl (IndexError ''list index out of range'')" by simp
  from mainpipe_of_body_failure[OF this]
  show "fst (mainpipe env m af pa pl ii rmf er cbp cv s) =
        Inl (AudioConverterError ''Conversion failed: list index out of range'')" by simp
qed

theorem mainpipe_uniform_failure_witness:
  "fst (mainpipe broken_probe ''X'' (OneFile ''a.mp3'') ''rmvpe'' 0 1 True 2 False
          demo_converter demo_start) =
     Inl (AudioConverterError ''Conversion failed: cannot decode'')"
proof -
  have g: "get_duration broken_probe (hd [''/srv/a.mp3'']) = Inl (OtherException ''cannot decode'')"
    by (simp add: broken_probe_def)
  from mainpipe_uniform_failure[where env = broken_probe and af = "OneFile ''a.mp3''"
      and s = demo_start and files = "[''/srv/a.mp3'']"
      and sv = "\<lparr>trace = [PathExists ''a.mp3''], conv = 0\<rparr>"
      and e = "OtherException ''cannot decode''" and m = "''X''" and pa = "''rmvpe''"
      and pl = 0 and ii = 1 and rmf = True and er = 2 and cbp = False and cv = demo_converter]
  have "validate_audio_files broken_probe (OneFile ''a.mp3'') demo_start =
          (Inr [''/srv/a.mp3''], \<lparr>trace = [PathExists ''a.mp3''], conv = 0\<rparr>) \<and>
        get_duration broken_probe (hd [''/srv/a.mp3'']) = Inl (OtherException ''cannot decode'') \<longrightarrow>
        fst (mainpipe broken_probe ''X'' (OneFile ''a.mp3'') ''rmvpe'' 0 1 True 2 False
          demo_converter demo_start) =
        Inl (AudioConverterError (''Conversion failed: '' @ str_exn (OtherException ''cannot decode'')))"
    by blast
  with broken_probe_validate_one g show ?thesis by simp
qed

subsection \<open>The result of the pipeline\<close>

text \<open>
  The source has no error of its own for an empty result: \<^verbatim>\<open>result[0]\<close> on the empty list
  raises \<^verbatim>\<open>IndexError\<close> inside the \<^verbatim>\<open>try\<close> block, and the caller sees
  \<open>Conversion failed: list index out of range\<close>.
\<close>

theorem mainpipe_empty_result_counterexample:
  "fst (mainpipe_body demo_env ''X'' (OneFile ''a.mp3'') ''rmvpe'' 0 1 True 2 False
          mute_converter demo_start) =
     Inl (IndexError ''list index out of range'') \<and>
   fst (mainpipe demo_env ''X'' (OneFile ''a.mp3'') ''rmvpe'' 0 1 True 2 False
          mute_converter demo_start) =
     Inl (AudioConverterError ''Conversion failed: list index out of range'')"
proof -
  let ?cfg = "build_config_params (generate_random_tag demo_env)
      \<lparr>model_name = ''X'', model_file = ''x.pth'', index_file = ''x.index''\<rparr>
      ''rmvpe'' (0::int) 1 True 2 False [''/srv/a.mp3'']"
  let ?st = "\<lparr>trace = [PathExists ''a.mp3''], conv = 0::nat\<rparr>
              \<lparr>trace := trace \<lparr>trace = [PathExists ''a.mp3''], conv = 0::nat\<rparr> @
                 [GetDuration (hd [''/srv/a.mp3''])]\<rparr>"
  have g: "get_duration demo_env (hd [''/srv/a.mp3'']) = Inr 3" by (simp add: demo_env_def)
  have af: "audio_files ?cfg = ''/srv/a.mp3'' # []" by simp
  have c: "configure_converter mute_converter ?cfg ?st =
             (Inr (), snd (configure_converter mute_converter ?cfg ?st))"
    using demo_configure(2)[OF af, of ?st] by (simp add: prod_eq_iff)
  have cl: "call mute_converter [''/srv/a.mp3''] (generate_random_tag demo_env) False 8
              (conv (snd (configure_converter mute_converter ?cfg ?st))) =
            (Inr [], conv (snd (configure_converter mute_converter ?cfg ?st)))"
    by (simp add: mute_converter_def)
  from mainpipe_body_stage_failure(5)[OF demo_validate_one g demo_resolve_X c cl]
  have body: "fst (mainpipe_body demo_env ''X'' (OneFile ''a.mp3'') ''rmvpe'' 0 1 True 2 False
          mute_converter demo_start) = Inl (IndexError ''list index out of range'')"
    by simp
  from mainpipe_of_body_failure[OF body] body show ?thesis by simp
qed

text \<open>
  Claim C2, as the code has it. When validation, duration probe, model resolution,
  configuration and the converter call succeed, \<^verbatim>\<open>mainpipe\<close> returns the first element of
  the converter's result list unchanged; when that list is empty it raises
  \<^verbatim>\<open>AudioConverterError\<close> with the message \<open>Conversion failed: list index out of range\<close>.
\<close>

theorem mainpipe_first_result:
  assumes "validate_audio_files env af s = (Inr files, sv)"
    and "get_duration env (hd files) = Inr d"
    and "resolve_model (MODELS env) m = Inr mc"
    and "configure_converter cv
           (build_config_params (generate_random_tag env) mc pa pl ii rmf er cbp files)
           (sv\<lparr>trace := trace sv @ [GetDuration (hd files)]\<rparr>) = (Inr (), sc)"
    and "call cv files (generate_random_tag env) False 8 (conv sc) = (Inr rs, c)"
  shows "fst (mainpipe env m af pa pl ii rmf er cbp cv s) =
           (case rs of
              [] \<Rightarrow> Inl (AudioConverterError ''Conversion failed: list index out of range'')
            | r # _ \<Rightarrow> Inr r)"
proof (cases rs)
  case Nil
  with mainpipe_body_stage_failure(5)[OF assms]
  have "fst (mainpipe_body env m af pa pl ii rmf er cbp cv s) =
          Inl (IndexError ''list index out of range'')" by simp
  from mainpipe_of_body_failure[OF this] Nil show ?thesis by simp
next
  case (Cons r rest)
  with mainpipe_body_stage_failure(5)[OF assms]
  have "fst (mainpipe_body env m af pa pl ii rmf er cbp cv s) = Inr r" by simp
  from mainpipe_of_body_success[OF this] Cons show ?thesis by simp
qed

theorem mainpipe_first_result_witness:
  "fst (mainpipe demo_env ''X'' (FileList [''a.mp3'', ''b.wav'']) ''rmvpe'' 0 1 True 2 False
          demo_converter demo_start) = Inr ''/srv/a.mp3.out''"
proof -
  let ?cfg = "build_config_params (generate_random_tag demo_env)
      \<lparr>model_name = ''X'', model_file = ''x.pth'', index_file = ''x.index''\<rparr>
      ''rmvpe'' (0::int) 1 True 2 False [''/srv/a.mp3'', ''/srv/b.wav'']"
  let ?sv = "\<lparr>trace = [PathExists ''a.mp3'', PathExists ''b.wav''], conv = 0::nat\<rparr>"
  let ?st = "?sv\<lparr>trace := trace ?sv @ [GetDuration (hd [''/srv/a.mp3'', ''/srv/b.wav''])]\<rparr>"
  have g: "get_duration demo_env (hd [''/srv/a.mp3'', ''/srv/b.wav'']) = Inr 3"
    by (simp add: demo_env_def)
  have af: "audio_files ?cfg = ''/srv/a.mp3'' # [''/srv/b.wav'']" by simp
  have c: "configure_converter demo_converter ?cfg ?st =
             (Inr (), snd (configure_converter demo_converter ?cfg ?st))"
    using demo_configure(1)[OF af, of ?st] by (simp add: prod_eq_iff)
  have cl: "call demo_converter [''/srv/a.mp3'', ''/srv/b.wav''] (generate_random_tag demo_env)
              False 8 (conv (snd (configure_converter demo_converter ?cfg ?st))) =
            (Inr [''/srv/a.mp3.out'', ''/srv/b.wav.out''],
             conv (snd (configure_converter demo_converter ?cfg ?st)))"
    by (simp add: demo_converter_def)
  from mainpipe_first_result[OF demo_validate_two g demo_resolve_X c cl]
  show ?thesis by simp
qed

subsection \<open>The converter call\<close>

text \<open>
  Claim C8. A run of \<^verbatim>\<open>mainpipe\<close> makes at most one call of the converter. A run in
  which validation, duration probe, model resolution and configuration all succeed
  makes exactly one, and the run is that call: \<^verbatim>\<open>mainpipe\<close> applies the converter to
  the validated list of absolute paths, the tag generated for the run,
  \<^verbatim>\<open>overwrite=False\<close> and \<^verbatim>\<open>parallel_workers=8\<close>, in the state \<^verbatim>\<open>apply_conf\<close>
  left the converter in; the state this call leaves is the state \<^verbatim>\<open>mainpipe\<close> leaves,
  its results decide the outcome of \<^verbatim>\<open>mainpipe\<close>, and it is the only call of the
  converter among the events of the run.
\<close>

theorem mainpipe_converter_call:
  "(\<exists>new. trace (snd (mainpipe env m af pa pl ii rmf er cbp cv s)) = trace s @ new \<and>
      (filter is_Convert new = [] \<or>
       filter is_Convert new =
         [Convert (map (path_absolute env) (normalize_files af)) (generate_random_tag env) False 8])) \<and>
   (validate_audio_files env af s = (Inr files, sv) \<and> get_duration env (hd files) = Inr d \<and>
    resolve_model (MODELS env) m = Inr mc \<and>
    configure_converter cv
      (build_config_params (generate_random_tag env) mc pa pl ii rmf er cbp files)
      (sv\<lparr>trace := trace sv @ [GetDuration (hd files)]\<rparr>) = (Inr (), sc) \<longrightarrow>
      files = map (path_absolute env) (normalize_files af) \<and>
      conv sc =
        snd (apply_conf cv
               (build_config_params (generate_random_tag env) mc pa pl ii rmf er cbp files)
               (if suffix ''.mp3'' (hd files) then 44100 else 0) (conv s)) \<and>
      filter is_Convert (trace sc) = filter is_Convert (trace s) \<and>
      mainpipe env m af pa pl ii rmf er cbp cv s =
        (case call cv files (generate_random_tag env) False 8 (conv sc) of
           (Inl e, c') \<Rightarrow>
             (Inl (AudioConverterError (''Conversion failed: '' @ str_exn e)),
              \<lparr>trace = trace sc @ [Convert files (generate_random_tag env) False 8], conv = c'\<rparr>)
         | (Inr rs, c') \<Rightarrow>
             (case rs of
                [] \<Rightarrow> Inl (AudioConverterError ''Conversion failed: list index out of range'')
              | x # _ \<Rightarrow> Inr x,
              \<lparr>trace = trace sc @ [Convert files (generate_random_tag env) False 8], conv = c'\<rparr>)))"
proof (intro conjI impI)
  show "\<exists>new. trace (snd (mainpipe env m af pa pl ii rmf er cbp cv s)) = trace s @ new \<and>
      (filter is_Convert new = [] \<or>
       filter is_Convert new =
         [Convert (map (path_absolute env) (normalize_files af)) (generate_random_tag env) False 8])"
    by (rule mainpipe_convert_events)
next
  assume h: "validate_audio_files env af s = (Inr files, sv) \<and> get_duration env (hd files) = Inr d \<and>
    resolve_model (MODELS env) m = Inr mc \<and>
    configure_converter cv
      (build_config_params (generate_random_tag env) mc pa pl ii rmf er cbp files)
      (sv\<lparr>trace := trace sv @ [GetDuration (hd files)]\<rparr>) = (Inr (), sc)"
  then have v: "validate_audio_files env af s = (Inr files, sv)"
    and g: "get_duration env (hd files) = Inr d"
    and r: "resolve_model (MODELS env) m = Inr mc"
    and c: "configure_converter cv
      (build_config_params (generate_random_tag env) mc pa pl ii rmf er cbp files)
      (sv\<lparr>trace := trace sv @ [GetDuration (hd files)]\<rparr>) = (Inr (), sc)"
    by simp_all
  show "files = map (path_absolute env) (normalize_files af)"
    by (rule validate_audio_files_result[OF v])
  show "conv sc =
        snd (apply_conf cv
               (build_config_params (generate_random_tag env) mc pa pl ii rmf er cbp files)
               (if suffix ''.mp3'' (hd files) then 44100 else 0) (conv s))"
    by (rule mainpipe_configured_state(1)[OF v c])
  show "filter is_Convert (trace sc) = filter is_Convert (trace s)"
    by (rule mainpipe_configured_state(2)[OF v c])
  show "mainpipe env m af pa pl ii rmf er cbp cv s =
        (case call cv files (generate_random_tag env) False 8 (conv sc) of
           (Inl e, c') \<Rightarrow>
             (Inl (AudioConverterError (''Conversion failed: '' @ str_exn e)),
              \<lparr>trace = trace sc @ [Convert files (generate_random_tag env) False 8], conv = c'\<rparr>)
         | (Inr rs, c') \<Rightarrow>
             (case rs of
                [] \<Rightarrow> Inl (AudioConverterError ''Conversion failed: list index out of range'')
              | x # _ \<Rightarrow> Inr x,
              \<lparr>trace = trace sc @ [Convert files (generate_random_tag env) False 8], conv = c'\<rparr>))"
    by (rule mainpipe_from_converting[OF v g r c])
qed

theorem mainpipe_converter_call_witness:
  "mainpipe demo_env ''X'' (FileList [''a.mp3'', ''b.wav'']) ''rmvpe'' 0 1 True 2 False
     recording_converter recording_start =
   (Inr ''/srv/a.mp3.out'',
    \<lparr>trace = [PathExists ''a.mp3'', PathExists ''b.wav'', GetDuration ''/srv/a.mp3'',
              ApplyConf demo_params 44100, Sleep 100,
              Convert [''/srv/a.mp3'', ''/srv/b.wav''] ''USER_12345678'' False 8],
     conv = [Configured 44100,
             Converted [''/srv/a.mp3'', ''/srv/b.wav''] ''USER_12345678'' False 8]\<rparr>)"
proof -
  let ?mc = "\<lparr>model_name = ''X'', model_file = ''x.pth'', index_file = ''x.index''\<rparr>"
  let ?sv = "\<lparr>trace = [PathExists ''a.mp3'', PathExists ''b.wav''], conv = []::call_log list\<rparr>"
  let ?sc = "\<lparr>trace = [PathExists ''a.mp3'', PathExists ''b.wav'', GetDuration ''/srv/a.mp3'',
                       ApplyConf demo_params 44100, Sleep 100],
              conv = [Configured 44100]\<rparr>"
  have g: "get_duration demo_env (hd [''/srv/a.mp3'', ''/srv/b.wav'']) = Inr 3"
    by (simp add: demo_env_def)
  have c: "configure_converter recording_converter
      (build_config_params (generate_random_tag demo_env) ?mc ''rmvpe'' 0 1 True 2 False
         [''/srv/a.mp3'', ''/srv/b.wav''])
      (?sv\<lparr>trace := trace ?sv @ [GetDuration (hd [''/srv/a.mp3'', ''/srv/b.wav''])]\<rparr>) =
      (Inr (), ?sc)"
    using recording_configure by (simp add: demo_build_config_params)
  note th = mainpipe_converter_call[where env = demo_env and af = "FileList [''a.mp3'', ''b.wav'']"
      and s = recording_start and files = "[''/srv/a.mp3'', ''/srv/b.wav'']" and sv = ?sv
      and d = 3 and m = "''X''" and pa = "''rmvpe''" and mc = ?mc and sc = ?sc
      and pl = 0 and ii = 1 and rmf = True and er = 2 and cbp = False
      and cv = recording_converter, THEN conjunct2]
  from th recording_validate_two g demo_resolve_X c
  have "mainpipe demo_env ''X'' (FileList [''a.mp3'', ''b.wav'']) ''rmvpe'' 0 1 True 2 False
          recording_converter recording_start =
        (case call recording_converter [''/srv/a.mp3'', ''/srv/b.wav''] (generate_random_tag demo_env)
                False 8 (conv ?sc) of
           (Inl e, c') \<Rightarrow>
             (Inl (AudioConverterError (''Conversion failed: '' @ str_exn e)),
              \<lparr>trace = trace ?sc @ [Convert [''/srv/a.mp3'', ''/srv/b.wav'']
                                      (generate_random_tag demo_env) False 8], conv = c'\<rparr>)
         | (Inr rs, c') \<Rightarrow>
             (case rs of
                [] \<Rightarrow> Inl (AudioConverterError ''Conversion failed: list index out of range'')
              | x # _ \<Rightarrow> Inr x,
              \<lparr>trace = trace ?sc @ [Convert [''/srv/a.mp3'', ''/srv/b.wav'']
                                      (generate_random_tag demo_env) False 8], conv = c'\<rparr>))"
    by blast
  then show ?thesis by (simp add: recording_converter_def demo_tag)
qed

end
